theory Spec2Isabelle
  imports Main "HOL-Library.AList"
begin

section \<open>The wrapper generator of pythreejs (js/scripts/generate-wrappers.js)\<close>

text \<open>
  The script reads a table of class configurations (\<^verbatim>\<open>three-class-config.js\<close>, the
  Config Store), resolves each class against its superclasses, works out which other
  classes a wrapper has to import, and renders one JavaScript and one Python wrapper per
  class, plus the index files. The table, the property types, the templates, the clock and
  the file system are inputs of this development; the functions of the script are
  translated one by one.
\<close>

subsection \<open>JavaScript values and errors\<close>

text \<open>
  A field of a JavaScript object that may be missing is an \<open>option\<close>: \<open>None\<close> is
  \<^verbatim>\<open>undefined\<close>. Objects keep the insertion order of their keys, so an object used as a
  dictionary is an association list with distinct keys, and \<^verbatim>\<open>Object.assign\<close> and
  \<^verbatim>\<open>obj[k] = v\<close> are \<open>AList.update\<close> (the key keeps its place, or is appended).
\<close>

datatype error =
    InvalidClassName string       \<comment> \<open>\<^verbatim>\<open>throw new Error('invalid class name: ' + className)\<close>\<close>
  | InvalidClassDescriptor        \<comment> \<open>\<^verbatim>\<open>throw new Error('invalid classDescriptor: ' + ...)\<close>\<close>
  | InvalidPropName string        \<comment> \<open>\<^verbatim>\<open>throw new Error('invalid propName: ' + propName)\<close>\<close>
  | TypeError                     \<comment> \<open>a member read from \<^verbatim>\<open>undefined\<close>\<close>
  | RangeError                    \<comment> \<open>the engine's "Maximum call stack size exceeded"\<close>

text \<open>The truth value of a string that may be \<^verbatim>\<open>undefined\<close>.\<close>

fun truthy :: "string option \<Rightarrow> bool" where
  "truthy None = False"
| "truthy (Some s) = (s \<noteq> [])"

text \<open>\<^verbatim>\<open>s.replace(/\./g, '_')\<close>\<close>

definition replaceDots :: "string \<Rightarrow> string" where
  "replaceDots s = map (\<lambda>c. if c = CHR ''.'' then CHR ''_'' else c) s"

text \<open>\<^verbatim>\<open>Object.assign(target, source)\<close> on dictionaries; a missing source adds nothing.
  A new key goes to the end of the list. (JavaScript lists keys that are array indices, such
  as \<^verbatim>\<open>'0'\<close>, before all others; the order of such keys is not modelled, their
  values are.)\<close>

definition assign :: "('k \<times> 'v) list \<Rightarrow> ('k \<times> 'v) list \<Rightarrow> ('k \<times> 'v) list" where
  "assign target source = foldl (\<lambda>m kv. AList.update (fst kv) (snd kv) m) target source"

definition orEmpty :: "'a list option \<Rightarrow> 'a list" where
  "orEmpty x = (case x of None \<Rightarrow> [] | Some xs \<Rightarrow> xs)"

subsection \<open>Property descriptors (prop-types.js)\<close>

text \<open>
  The script asks a property descriptor which class it is an instance of, reads its
  \<^verbatim>\<open>typeName\<close>, \<^verbatim>\<open>serializer\<close> and \<^verbatim>\<open>enumTypeName\<close> fields and calls its
  getters. The getters take no argument, so a descriptor is the record of what they return.
\<close>

datatype propClass = ThreeType | InitializedThreeType | ThreeTypeArray | ThreeTypeDict | OtherType

datatype typeNameValue = TNUndefined | TNString string | TNArray "string list"

record propDescriptor =
  propClass :: propClass
  typeName :: typeNameValue
  serializer :: "string option"
  enumTypeName :: "string option"
  getJSPropertyValue :: string
  getPropArrayName :: "string option"
  getPropertyConverterFn :: "string option"
  getPropertyAssignmentFn :: "string option"
  getTraitlet :: string
  getPythonDefaultValue :: string

subsection \<open>The Config Store\<close>

record classConfig =
  relativePath :: "string option"
  superClass :: "string option"
  properties :: "(string \<times> propDescriptor) list option"
  constructorArgs :: "string list option"
  dependencies :: "string list option"
  propsDefinedByThree :: "string list option"

text \<open>
  \<^verbatim>\<open>classConfigs\<close>: the table from class name to configuration, in the order of its
  own keys (\<^verbatim>\<open>Object.keys\<close> walks them), with the defaults under \<^verbatim>\<open>_defaults\<close>.
\<close>

type_synonym classConfigs = "(string \<times> classConfig) list"

text \<open>
  The table is a plain object, so \<^verbatim>\<open>name in classConfigs\<close> and
  \<^verbatim>\<open>classConfigs[name]\<close> also find the members every object inherits from
  \<^verbatim>\<open>Object.prototype\<close>. Their values are functions (for \<^verbatim>\<open>__proto__\<close> the prototype
  itself), which have none of the fields the script reads and nothing for
  \<^verbatim>\<open>Object.assign\<close> to copy: read as a class configuration, each is the configuration
  with every field \<^verbatim>\<open>undefined\<close>. A key of the table itself comes first.
\<close>

definition objectPrototypeNames :: "string list" where
  "objectPrototypeNames =
     [''constructor'', ''__defineGetter__'', ''__defineSetter__'', ''hasOwnProperty'',
      ''__lookupGetter__'', ''__lookupSetter__'', ''isPrototypeOf'', ''propertyIsEnumerable'',
      ''toString'', ''valueOf'', ''__proto__'', ''toLocaleString'']"

definition noConfig :: classConfig where
  "noConfig = \<lparr> relativePath = None, superClass = None, properties = None,
                 constructorArgs = None, dependencies = None, propsDefinedByThree = None \<rparr>"

definition lookupClass :: "classConfigs \<Rightarrow> string \<Rightarrow> classConfig option" where
  "lookupClass classConfigs name =
     (case map_of classConfigs name of
        Some c \<Rightarrow> Some c
      | None \<Rightarrow> if name \<in> set objectPrototypeNames then Some noConfig else None)"

record resolvedConfig = classConfig +
  allProperties :: "(string \<times> propDescriptor) list"

text \<open>\<^verbatim>\<open>_.defaults(result, classConfigs._defaults)\<close>: every field that is still
  \<^verbatim>\<open>undefined\<close> takes the default's value. \<^verbatim>\<open>propsDefinedByThree\<close> and
  \<^verbatim>\<open>allProperties\<close> have been set by then.\<close>

definition orElse :: "'a option \<Rightarrow> 'a option \<Rightarrow> 'a option" where
  "orElse x d = (case x of None \<Rightarrow> d | Some v \<Rightarrow> Some v)"

definition applyDefaults :: "resolvedConfig \<Rightarrow> classConfig option \<Rightarrow> resolvedConfig" where
  "applyDefaults r defaults =
     (case defaults of
        None \<Rightarrow> r
      | Some d \<Rightarrow> r\<lparr> relativePath := orElse (relativePath r) (relativePath d),
                    superClass := orElse (superClass r) (superClass d),
                    properties := orElse (properties r) (properties d),
                    constructorArgs := orElse (constructorArgs r) (constructorArgs d),
                    dependencies := orElse (dependencies r) (dependencies d),
                    propsDefinedByThree := orElse (propsDefinedByThree r) (propsDefinedByThree d) \<rparr>)"

text \<open>
  The body of \<^verbatim>\<open>getClassConfig\<close> after the superclass has been resolved (or was not
  asked for): copy the class, collect \<^verbatim>\<open>propsDefinedByThree\<close>, lay the class's own
  properties over the superclass's \<^verbatim>\<open>allProperties\<close>, apply the defaults.
\<close>

definition buildConfig ::
  "classConfig \<Rightarrow> resolvedConfig option \<Rightarrow> classConfig option \<Rightarrow> resolvedConfig" where
  "buildConfig curClass superClassConfig defaults =
     applyDefaults
       (classConfig.extend
          (curClass\<lparr> propsDefinedByThree :=
              Some (orEmpty (propsDefinedByThree curClass) @
                    (case superClassConfig of None \<Rightarrow> []
                     | Some s \<Rightarrow> orEmpty (propsDefinedByThree s))) \<rparr>)
          (resolvedConfig.fields
             (assign (case superClassConfig of None \<Rightarrow> [] | Some s \<Rightarrow> allProperties s)
                     (orEmpty (properties curClass)))))
       defaults"

text \<open>
  \<^verbatim>\<open>curClass.superClass && curClass.superClass !== classConfigs._defaults.superClass\<close>.
  The right operand is read only when the left one is truthy; reading \<^verbatim>\<open>superClass\<close> of
  a missing \<^verbatim>\<open>_defaults\<close> is a TypeError.
\<close>

definition hasSuperClass :: "classConfigs \<Rightarrow> classConfig \<Rightarrow> error + bool" where
  "hasSuperClass classConfigs curClass =
     (if truthy (superClass curClass)
      then (case map_of classConfigs ''_defaults'' of
              None \<Rightarrow> Inl TypeError
            | Some d \<Rightarrow> Inr (superClass curClass \<noteq> superClass d))
      else Inr False)"

text \<open>
  \<^verbatim>\<open>getClassConfig(className)\<close>. The function calls itself on the superclass and
  has no other exit, so the first argument is the number of calls the engine's stack still
  takes: with none left the call ends in the engine's RangeError.
\<close>

fun getClassConfig :: "nat \<Rightarrow> classConfigs \<Rightarrow> string \<Rightarrow> error + resolvedConfig" where
  "getClassConfig 0 classConfigs className = Inl RangeError"
| "getClassConfig (Suc depth) classConfigs className =
     (let className = replaceDots className in
      case lookupClass classConfigs className of
        None \<Rightarrow> Inl (InvalidClassName className)
      | Some curClass \<Rightarrow>
          (case hasSuperClass classConfigs curClass of
             Inl e \<Rightarrow> Inl e
           | Inr True \<Rightarrow>
               (case getClassConfig depth classConfigs (the (superClass curClass)) of
                  Inl e \<Rightarrow> Inl e
                | Inr superClassConfig \<Rightarrow>
                    Inr (buildConfig curClass (Some superClassConfig) (map_of classConfigs ''_defaults'')))
           | Inr False \<Rightarrow> Inr (buildConfig curClass None (map_of classConfigs ''_defaults''))))"

subsection \<open>Strings and regular expressions the script uses\<close>

text \<open>\<^verbatim>\<open>/suffix$/.test(s)\<close> for a literal suffix, and \<^verbatim>\<open>/sub/.test(s)\<close>.\<close>

definition endsWith :: "string \<Rightarrow> string \<Rightarrow> bool" where
  "endsWith suf s = (length suf \<le> length s \<and> drop (length s - length suf) s = suf)"

definition startsWith :: "string \<Rightarrow> string \<Rightarrow> bool" where
  "startsWith pre s = (take (length pre) s = pre)"


text \<open>\<^verbatim>\<open>s.replace(pattern, replacement)\<close> with a string pattern: the first occurrence.\<close>

fun replaceFirst :: "string \<Rightarrow> string \<Rightarrow> string \<Rightarrow> string" where
  "replaceFirst pat rep [] = (if pat = [] then rep else [])"
| "replaceFirst pat rep (c # cs) =
     (if startsWith pat (c # cs) then rep @ drop (length pat) (c # cs)
      else c # replaceFirst pat rep cs)"

text \<open>\<^verbatim>\<open>s.split(sep)\<close> for separator characters: \<open>''a/b''\<close> gives \<open>[''a'', ''b'']\<close>, the
  empty string gives one empty token.\<close>

fun splitOn :: "(char \<Rightarrow> bool) \<Rightarrow> string \<Rightarrow> string list" where
  "splitOn sep [] = [[]]"
| "splitOn sep (c # cs) =
     (if sep c then [] # splitOn sep cs
      else (case splitOn sep cs of [] \<Rightarrow> [[c]] | t # ts \<Rightarrow> (c # t) # ts))"

text \<open>\<^verbatim>\<open>tokens.join(sep)\<close>\<close>

fun joinWith :: "string \<Rightarrow> string list \<Rightarrow> string" where
  "joinWith sep [] = []"
| "joinWith sep [s] = s"
| "joinWith sep (s # t # ts) = s @ sep @ joinWith sep (t # ts)"

subsection \<open>Node's path module on a POSIX host\<close>

text \<open>
  The script computes every location with \<^verbatim>\<open>path.resolve\<close>, \<^verbatim>\<open>path.relative\<close>,
  \<^verbatim>\<open>path.join\<close>, \<^verbatim>\<open>path.dirname\<close> and \<^verbatim>\<open>path.basename\<close>. They are library
  functions of Node, given here by what they return on a POSIX host (separator \<open>/\<close>).
\<close>

definition isSlash :: "char \<Rightarrow> bool" where
  "isSlash c = (c = CHR ''/'')"

text \<open>The segments of a path with \<open>.\<close>, empty segments and resolvable \<open>..\<close> removed
  (\<^verbatim>\<open>normalizeString\<close>); the second argument is the result so far.\<close>

fun normalizeSegs :: "bool \<Rightarrow> string list \<Rightarrow> string list \<Rightarrow> string list" where
  "normalizeSegs allowAboveRoot res [] = res"
| "normalizeSegs allowAboveRoot res (s # ss) =
     (if s = [] \<or> s = ''.'' then normalizeSegs allowAboveRoot res ss
      else if s = ''..'' then
        (if res \<noteq> [] \<and> last res \<noteq> ''..'' then normalizeSegs allowAboveRoot (butlast res) ss
         else if allowAboveRoot then normalizeSegs allowAboveRoot (res @ [''..'']) ss
         else normalizeSegs allowAboveRoot res ss)
      else normalizeSegs allowAboveRoot (res @ [s]) ss)"

definition path_normalize :: "string \<Rightarrow> string" where
  "path_normalize p =
     (if p = [] then ''.''
      else
        let isAbsolute = isSlash (hd p);
            trailingSeparator = isSlash (last p);
            body = joinWith ''/'' (normalizeSegs (\<not> isAbsolute) [] (splitOn isSlash p))
        in if body = [] then (if isAbsolute then ''/'' else if trailingSeparator then ''./'' else ''.'')
           else (if isAbsolute then ''/'' else []) @ body @ (if trailingSeparator then ''/'' else []))"

definition path_join :: "string list \<Rightarrow> string" where
  "path_join args =
     (let joined = joinWith ''/'' (filter (\<lambda>a. a \<noteq> []) args)
      in if joined = [] then ''.'' else path_normalize joined)"

text \<open>The part of a string before, and after, the last occurrence of a character.\<close>

definition beforeLast :: "(char \<Rightarrow> bool) \<Rightarrow> string \<Rightarrow> string" where
  "beforeLast sep s = rev (tl (dropWhile (\<lambda>c. \<not> sep c) (rev s)))"

definition afterLast :: "(char \<Rightarrow> bool) \<Rightarrow> string \<Rightarrow> string" where
  "afterLast sep s = rev (takeWhile (\<lambda>c. \<not> sep c) (rev s))"

definition stripTrailing :: "(char \<Rightarrow> bool) \<Rightarrow> string \<Rightarrow> string" where
  "stripTrailing sep s = rev (dropWhile sep (rev s))"

definition path_dirname :: "string \<Rightarrow> string" where
  "path_dirname p =
     (if p = [] then ''.''
      else
        let hasRoot = isSlash (hd p);
            rest = stripTrailing isSlash (tl p)
        in if \<not> list_ex isSlash rest then (if hasRoot then ''/'' else ''.'')
           else
             let end = 1 + length (beforeLast isSlash rest)
             in if hasRoot \<and> end = 1 then ''//'' else take end p)"

definition path_basename :: "string \<Rightarrow> string \<Rightarrow> string" where
  "path_basename p ext =
     (if ext \<noteq> [] \<and> ext = p then []
      else
        let b = afterLast isSlash (stripTrailing isSlash p)
        in if ext \<noteq> [] \<and> length ext < length b \<and> endsWith ext b
           then take (length b - length ext) b else b)"

text \<open>\<^verbatim>\<open>path.resolve(...args)\<close>: the arguments are taken from the right until one is
  absolute, the working directory (an absolute path) last.\<close>

fun resolveFromRight :: "string list \<Rightarrow> string \<Rightarrow> string" where
  "resolveFromRight [] resolvedPath = resolvedPath"
| "resolveFromRight (p # ps) resolvedPath =
     (if p = [] then resolveFromRight ps resolvedPath
      else if isSlash (hd p) then p @ ''/'' @ resolvedPath
      else resolveFromRight ps (p @ ''/'' @ resolvedPath))"

definition resolvedSegs :: "string \<Rightarrow> string list \<Rightarrow> string list" where
  "resolvedSegs cwd args =
     normalizeSegs False [] (splitOn isSlash (resolveFromRight (rev (cwd # args)) []))"

definition path_resolve :: "string \<Rightarrow> string list \<Rightarrow> string" where
  "path_resolve cwd args = ''/'' @ joinWith ''/'' (resolvedSegs cwd args)"

fun dropCommon :: "string list \<Rightarrow> string list \<Rightarrow> string list \<times> string list" where
  "dropCommon (x # xs) (y # ys) = (if x = y then dropCommon xs ys else (x # xs, y # ys))"
| "dropCommon xs ys = (xs, ys)"

definition path_relative :: "string \<Rightarrow> string \<Rightarrow> string \<Rightarrow> string" where
  "path_relative cwd from to =
     (if from = to then []
      else
        let (up, down) = dropCommon (resolvedSegs cwd [from]) (resolvedSegs cwd [to])
        in joinWith ''/'' (replicate (length up) ''..'' @ down))"

subsection \<open>The environment of a run\<close>

text \<open>
  What the script reads besides the table: the working directory, the two output roots
  (\<^verbatim>\<open>jsSrcDir\<close> and \<^verbatim>\<open>pySrcDir\<close>, absolute paths derived from the script's own
  location), which files exist (\<^verbatim>\<open>fse.existsSync\<close>), the clock (what \<^verbatim>\<open>new Date()\<close> returns; the
  calls of one run are given one value, the time of the run), and
  the listings it asks for: the source files of three.js that the glob \<^verbatim>\<open>**/*.js\<close> matches
  after the ignore list, the directories under \<^verbatim>\<open>jsSrcDir\<close> (glob \<^verbatim>\<open>**/\<close>), the
  entries of a directory (\<^verbatim>\<open>fse.readdir\<close>), and the Python files under \<^verbatim>\<open>pySrcDir\<close>
  (glob \<^verbatim>\<open>**/*.py\<close> after its ignore list).
\<close>

datatype date = Date nat

record env =
  cwd :: string
  jsSrcDir :: string
  pySrcDir :: string
  existsSync :: "string \<Rightarrow> bool"
  clock :: date
  threeModules :: "string list"
  jsDirs :: "string list"
  readdir :: "string \<Rightarrow> string list"
  pyFiles :: "string list"

text \<open>What the script does to the outside: lines on the console and files handed to
  \<^verbatim>\<open>fse.outputFile\<close> (a whole-file write) or \<^verbatim>\<open>fse.ensureFile\<close>.\<close>

datatype effect =
    ConsoleLog string
  | ConsoleLogError error
  | OutputFile string string
  | EnsureFile string

text \<open>What a per-class generator returns: \<^verbatim>\<open>Promise.resolve(false)\<close>, or the promise of
  the write.\<close>

datatype outcome = Skipped | Written

fun mapE :: "('a \<Rightarrow> error + 'b) \<Rightarrow> 'a list \<Rightarrow> error + 'b list" where
  "mapE f [] = Inr []"
| "mapE f (x # xs) =
     (case f x of
        Inl e \<Rightarrow> Inl e
      | Inr y \<Rightarrow> (case mapE f xs of Inl e \<Rightarrow> Inl e | Inr ys \<Rightarrow> Inr (y # ys)))"

text \<open>A loop over a list that updates a result and stops at the first throw.\<close>

fun foldE :: "('a \<Rightarrow> 'b \<Rightarrow> error + 'b) \<Rightarrow> 'a list \<Rightarrow> 'b \<Rightarrow> error + 'b" where
  "foldE f [] result = Inr result"
| "foldE f (x # xs) result =
     (case f x result of Inl e \<Rightarrow> Inl e | Inr result' \<Rightarrow> foldE f xs result')"

subsection \<open>References to other classes\<close>

record requireInfo =
  className :: string
  refRelativePath :: string
  absolutePath :: string
  requirePath :: string

record jsRequireInfo = requireInfo +
  modelName :: string

record pyRequireInfo = requireInfo +
  pyRelativePath :: string

text \<open>
  The first half of \<^verbatim>\<open>getRequireInfoFromClassDescriptor\<close>, the same text in both
  wrapper classes: the class name and the relative path a descriptor stands for. A
  descriptor that is \<^verbatim>\<open>in classConfigs\<close> is resolved; any other string is taken as a
  path.
\<close>

definition classOfDescriptor ::
  "nat \<Rightarrow> classConfigs \<Rightarrow> string option \<Rightarrow> error + (string \<times> string option)" where
  "classOfDescriptor depth classConfigs classDescriptor =
     (case classDescriptor of
        None \<Rightarrow> Inl InvalidClassDescriptor
      | Some d \<Rightarrow>
          if lookupClass classConfigs d \<noteq> None
          then (case getClassConfig depth classConfigs d of
                  Inl e \<Rightarrow> Inl e
                | Inr config \<Rightarrow> Inr (d, relativePath config))
          else Inr (path_basename d ''.js'', Some d))"

text \<open>The file a JavaScript reference points at: the hand-written \<^verbatim>\<open>.js\<close> file when it
  exists, the generated \<^verbatim>\<open>.autogen.js\<close> file otherwise.\<close>

definition jsResolvedFile :: "env \<Rightarrow> string \<Rightarrow> string" where
  "jsResolvedFile env absPath =
     (if existsSync env (absPath @ ''.js'') then absPath @ ''.js'' else absPath @ ''.autogen.js'')"

text \<open>\<^verbatim>\<open>.replace(/\\/g, '/')\<close>, and the \<^verbatim>\<open>./\<close> put before a path that does not start
  with a dot.\<close>

definition replaceBackslashes :: "string \<Rightarrow> string" where
  "replaceBackslashes s = map (\<lambda>c. if c = CHR 0x5C then CHR ''/'' else c) s"

definition dotRelative :: "string \<Rightarrow> string" where
  "dotRelative p = (case p of [] \<Rightarrow> ''./'' | c # cs \<Rightarrow> if c \<noteq> CHR ''.'' then ''./'' @ p else p)"

definition js_getRequireInfoFromClassDescriptor ::
  "env \<Rightarrow> classConfigs \<Rightarrow> nat \<Rightarrow> string \<Rightarrow> string option \<Rightarrow> error + jsRequireInfo" where
  "js_getRequireInfoFromClassDescriptor env classConfigs depth destDir classDescriptor =
     (case classOfDescriptor depth classConfigs classDescriptor of
        Inl e \<Rightarrow> Inl e
      | Inr (name, rel) \<Rightarrow>
          (case rel of
             None \<Rightarrow> Inl TypeError
           | Some rel \<Rightarrow>
               let absPath = path_resolve (cwd env) [jsSrcDir env, rel]
               in Inr \<lparr> className = name, refRelativePath = rel, absolutePath = absPath,
                        requirePath = dotRelative (replaceBackslashes
                          (path_relative (cwd env) destDir (jsResolvedFile env absPath))),
                        modelName = name @ ''Model'' \<rparr>))"

text \<open>\<^verbatim>\<open>prop instanceof Types.ThreeType || ... || prop instanceof Types.ThreeTypeDict\<close>\<close>

definition referencesThreeType :: "propDescriptor \<Rightarrow> bool" where
  "referencesThreeType p = (propClass p \<noteq> OtherType)"

text \<open>\<^verbatim>\<open>result[name] = this.getRequireInfoFromClassDescriptor(name)\<close>\<close>

definition js_addDependency ::
  "env \<Rightarrow> classConfigs \<Rightarrow> nat \<Rightarrow> string \<Rightarrow> string \<Rightarrow> (string \<times> jsRequireInfo) list
     \<Rightarrow> error + (string \<times> jsRequireInfo) list" where
  "js_addDependency env classConfigs depth destDir name result =
     (case js_getRequireInfoFromClassDescriptor env classConfigs depth destDir (Some name) of
        Inl e \<Rightarrow> Inl e
      | Inr info \<Rightarrow> Inr (AList.update name info result))"

text \<open>The body of the second \<^verbatim>\<open>_.reduce\<close> of \<^verbatim>\<open>processDependencies\<close>, for one
  property.\<close>

definition js_inferDependency ::
  "env \<Rightarrow> classConfigs \<Rightarrow> nat \<Rightarrow> string \<Rightarrow> propDescriptor \<Rightarrow> (string \<times> jsRequireInfo) list
     \<Rightarrow> error + (string \<times> jsRequireInfo) list" where
  "js_inferDependency env classConfigs depth destDir p result =
     (if referencesThreeType p then
        (case typeName p of
           TNString t \<Rightarrow>
             if t \<noteq> ''this''
             then js_addDependency env classConfigs depth destDir
                    (if t \<noteq> [] then t else ''./_base/Three'') result
             else Inr result
         | TNArray ts \<Rightarrow> foldE (js_addDependency env classConfigs depth destDir) ts result
         | TNUndefined \<Rightarrow> Inr result)
      else Inr result)"

definition js_processDependencies ::
  "env \<Rightarrow> classConfigs \<Rightarrow> nat \<Rightarrow> string \<Rightarrow> resolvedConfig
     \<Rightarrow> error + (string \<times> jsRequireInfo) list" where
  "js_processDependencies env classConfigs depth destDir config =
     (case foldE (js_addDependency env classConfigs depth destDir)
             (orEmpty (dependencies config)) [] of
        Inl e \<Rightarrow> Inl e
      | Inr explicit \<Rightarrow>
          foldE (js_inferDependency env classConfigs depth destDir)
            (map snd (orEmpty (properties config))) explicit)"

text \<open>
  Which keys a property writes into the mapping, read off the branches of the loop over the
  properties: the one key of a single type name (a type name other than \<^verbatim>\<open>'this'\<close>; the
  empty name stands for \<^verbatim>\<open>'./_base/Three'\<close>), or the keys of an array of type names.
\<close>

definition singleTarget :: "propDescriptor \<Rightarrow> string option" where
  "singleTarget p =
     (if referencesThreeType p then
        (case typeName p of
           TNString t \<Rightarrow> if t \<noteq> ''this'' then Some (if t \<noteq> [] then t else ''./_base/Three'') else None
         | TNArray ts \<Rightarrow> None
         | TNUndefined \<Rightarrow> None)
      else None)"

definition arrayTargets :: "propDescriptor \<Rightarrow> string list" where
  "arrayTargets p =
     (if referencesThreeType p then
        (case typeName p of TNString t \<Rightarrow> [] | TNArray ts \<Rightarrow> ts | TNUndefined \<Rightarrow> [])
      else [])"

subsection \<open>Rendering contexts and templates\<close>

text \<open>
  The objects handed to the Handlebars templates. Every context starts with the time of
  the run and the name of the script. (\<^verbatim>\<open>viewName\<close> of the JavaScript context is never
  assigned and is left out.) The compiled templates are inputs: functions from a context to
  text.
\<close>

record propRender =
  defaultJson :: string

record jsPropRender = propRender +
  property_array_name :: "string option"
  property_converter :: "string option"
  property_assigner :: "string option"

record pyPropRender = propRender +
  trait_declaration :: string

record overrideClass =
  overrideRelativePath :: string
  overrideModelName :: string

record baseContext =
  now :: date
  generatorScriptName :: string

record jsContext = baseContext +
  js_className :: string
  js_modelName :: string
  js_superClass :: jsRequireInfo
  js_constructor_args :: "string list"
  js_properties :: "(string \<times> jsPropRender) list"
  js_dependencies :: "(string \<times> jsRequireInfo) list"
  props_created_by_three :: "string list"
  serialized_props :: "(string \<times> string) list"
  enum_properties :: "(string \<times> string) list"
  override_class :: "overrideClass option"

record pyContext = baseContext +
  threejs_docs_url :: string
  py_base_relative_path :: string
  py_constructor_args :: "(string \<times> string) list"
  hasParameters :: bool
  py_className :: string
  py_modelName :: string
  py_superClass :: pyRequireInfo
  py_properties :: "(string \<times> pyPropRender) list"
  py_dependencies :: "(string \<times> pyRequireInfo) list"
  py_hasOverride :: bool
  isCustom :: bool

record indexContext = baseContext +
  top_level :: bool
  submodules :: "string list"

record pyInitContext = baseContext +
  modules :: "string list"

record templates =
  jsWrapperTemplate :: "jsContext \<Rightarrow> string"
  jsIndexTemplate :: "indexContext \<Rightarrow> string"
  pyWrapperTemplate :: "pyContext \<Rightarrow> string"
  pyTopLevelInitTemplate :: "pyInitContext \<Rightarrow> string"

definition scriptName :: string where
  "scriptName = ''generate-wrappers.js''"

definition AUTOGEN_EXT :: string where
  "AUTOGEN_EXT = ''autogen''"

definition CUSTOM_CLASSES :: "string list" where
  "CUSTOM_CLASSES =
     [''textures/ImageTexture.js'', ''textures/TextTexture.js'', ''cameras/CombinedCamera.js'',
      ''controls/Controls.js'', ''controls/OrbitControls.js'', ''controls/TrackballControls.js'',
      ''controls/FlyControls.js'', ''controls/Picker.js'', ''core/BaseGeometry.js'',
      ''core/BaseBufferGeometry.js'', ''objects/CloneArray.js'', ''objects/Blackbox.js'']"

subsection \<open>Helper functions of the script\<close>

definition getExtraDefines :: "classConfigs \<Rightarrow> string \<Rightarrow> error + string list" where
  "getExtraDefines classConfigs name =
     (let name = replaceDots name in
      case lookupClass classConfigs name of
        None \<Rightarrow> Inl (InvalidClassName name)
      | Some c \<Rightarrow>
          Inr (filter (\<lambda>key. \<not> startsWith ''_'' key
                           \<and> map_option relativePath (map_of classConfigs key) = Some (relativePath c)
                           \<and> key \<noteq> name)
                 (map fst classConfigs)))"

definition isPathSep :: "char \<Rightarrow> bool" where
  "isPathSep c = (c = CHR 0x5C \<or> c = CHR ''/'')"

text \<open>The \<^verbatim>\<open>forEach\<close> of \<^verbatim>\<open>relativePathToPythonImportPath\<close>: the result so far and
  \<^verbatim>\<open>sawFolderToken\<close>.\<close>

fun importTokens :: "string list \<Rightarrow> string \<times> bool \<Rightarrow> string \<times> bool" where
  "importTokens [] acc = acc"
| "importTokens (token # tokens) (result, sawFolderToken) =
     (if token = ''.'' then importTokens tokens (result, sawFolderToken)
      else if token = ''..'' then importTokens tokens (result @ ''.'', sawFolderToken)
      else importTokens tokens (result @ ''.'' @ token, True))"

definition relativePathToPythonImportPath :: "string \<Rightarrow> string" where
  "relativePathToPythonImportPath relPath =
     (let tokens = splitOn isPathSep relPath;
          firstToken = hd tokens;
          (result, sawFolderToken) =
            (if firstToken = ''.'' then importTokens (tl tokens) ([], False)
             else if firstToken = ''..'' then importTokens (tl tokens) (''.'', False)
             else importTokens tokens ([], False))
      in if \<not> sawFolderToken then result @ ''.'' else result)"

subsection \<open>The JavaScript wrapper\<close>

record jsWrapper =
  jsAutoDestPath :: string
  js_hasOverride :: bool
  js_config :: resolvedConfig
  js_context :: jsContext
  js_output :: string

definition js_processProperties :: "resolvedConfig \<Rightarrow> (string \<times> jsPropRender) list" where
  "js_processProperties config =
     map (\<lambda>(propName, p).
            (propName, \<lparr> defaultJson = getJSPropertyValue p,
                         property_array_name = getPropArrayName p,
                         property_converter = getPropertyConverterFn p,
                         property_assigner = getPropertyAssignmentFn p \<rparr>))
         (orEmpty (properties config))"

definition js_serializedProps :: "resolvedConfig \<Rightarrow> (string \<times> string) list" where
  "js_serializedProps config =
     map (\<lambda>(propName, p). (propName, the (serializer p)))
         (filter (\<lambda>(propName, p). truthy (serializer p)) (orEmpty (properties config)))"

definition js_enum_properties :: "resolvedConfig \<Rightarrow> (string \<times> string) list" where
  "js_enum_properties config =
     map (\<lambda>(propName, p). (propName, the (enumTypeName p)))
         (filter (\<lambda>(propName, p). truthy (enumTypeName p)) (orEmpty (properties config)))"

text \<open>\<^verbatim>\<open>allProperties\<close> is a plain object too: for a name inherited from
  \<^verbatim>\<open>Object.prototype\<close> the lookup gives a function, the test \<^verbatim>\<open>!prop\<close> passes, and
  the call of its \<^verbatim>\<open>getPropertyConverterFn\<close> is a TypeError.\<close>

definition getModelToThreeGetter :: "resolvedConfig \<Rightarrow> string \<Rightarrow> error + string" where
  "getModelToThreeGetter config propName =
     (case map_of (allProperties config) propName of
        None \<Rightarrow>
          if propName \<in> set objectPrototypeNames then Inl TypeError
          else Inl (InvalidPropName propName)
      | Some p \<Rightarrow>
          if truthy (getPropertyConverterFn p)
          then Inr (''this.'' @ the (getPropertyConverterFn p) @ ''ModelToThree(this.get(''
                    @ [CHR 0x27] @ propName @ [CHR 0x27] @ ''), '' @ [CHR 0x27] @ propName
                    @ [CHR 0x27] @ '')'')
          else Inr (''this.get('' @ [CHR 0x27] @ propName @ [CHR 0x27] @ '')''))"

definition getConstructorParametersObject :: "resolvedConfig \<Rightarrow> error + string list" where
  "getConstructorParametersObject config =
     (case mapE (\<lambda>propName.
                   case getModelToThreeGetter config propName of
                     Inl e \<Rightarrow> Inl e
                   | Inr getter \<Rightarrow> Inr (''                '' @ propName @ '': '' @ getter @ '',''))
             (map fst (orEmpty (properties config))) of
        Inl e \<Rightarrow> Inl e
      | Inr lines \<Rightarrow> Inr ([''{''] @ lines @ [''            }'']))"

definition js_processConstructorArgs :: "resolvedConfig \<Rightarrow> error + string list" where
  "js_processConstructorArgs config =
     (case constructorArgs config of
        None \<Rightarrow> Inl TypeError
      | Some args \<Rightarrow>
          mapE (\<lambda>propName.
                  if propName = ''parameters''
                  then (case getConstructorParametersObject config of
                          Inl e \<Rightarrow> Inl e
                        | Inr lines \<Rightarrow> Inr (joinWith [CHR 0x0A] lines))
                  else getModelToThreeGetter config propName)
               args)"

text \<open>\<^verbatim>\<open>this.modelClass\<close> is never assigned, so the override's model name ends in the
  text \<^verbatim>\<open>undefined\<close>.\<close>

definition processOverrideClass :: "bool \<Rightarrow> string \<Rightarrow> overrideClass option" where
  "processOverrideClass hasOverride name =
     (if \<not> hasOverride then None
      else Some \<lparr> overrideRelativePath = ''./'' @ name @ ''.js'',
                  overrideModelName = ''Override'' @ ''.'' @ ''undefined'' \<rparr>)"

text \<open>
  The constructor of \<^verbatim>\<open>JavascriptWrapper\<close> from \<^verbatim>\<open>this.config = ...\<close> on, for the
  class name and generated-file location fixed in its first lines. A throw anywhere leaves
  the constructor.
\<close>

definition js_construct ::
  "templates \<Rightarrow> env \<Rightarrow> classConfigs \<Rightarrow> nat \<Rightarrow> string \<Rightarrow> string \<Rightarrow> string
     \<Rightarrow> error + jsWrapper" where
  "js_construct tpl env classConfigs depth modulePath name autoDestPath =
     (let jsDestPath = path_resolve (cwd env) [jsSrcDir env, modulePath];
          destDir = path_dirname jsDestPath
      in
      case getClassConfig depth classConfigs name of
        Inl e \<Rightarrow> Inl e
      | Inr config \<Rightarrow>
          let customSrcPath =
                path_join [path_dirname jsDestPath, path_basename jsDestPath ''.js'' @ ''.js''];
              hasOverride = existsSync env customSrcPath
          in
          (case js_getRequireInfoFromClassDescriptor env classConfigs depth destDir
                  (superClass config) of
             Inl e \<Rightarrow> Inl e
           | Inr superInfo \<Rightarrow>
               (case js_processDependencies env classConfigs depth destDir config of
                  Inl e \<Rightarrow> Inl e
                | Inr deps \<Rightarrow>
                    (case js_processConstructorArgs config of
                       Inl e \<Rightarrow> Inl e
                     | Inr args \<Rightarrow>
                         let context =
                               \<lparr> now = clock env, generatorScriptName = scriptName,
                                 js_className = name, js_modelName = name @ ''Model'',
                                 js_superClass = superInfo, js_constructor_args = args,
                                 js_properties = js_processProperties config,
                                 js_dependencies = deps,
                                 props_created_by_three = orEmpty (propsDefinedByThree config),
                                 serialized_props = js_serializedProps config,
                                 enum_properties = js_enum_properties config,
                                 override_class = processOverrideClass hasOverride name \<rparr>
                         in Inr \<lparr> jsAutoDestPath = autoDestPath, js_hasOverride = hasOverride,
                                  js_config = config, js_context = context,
                                  js_output = jsWrapperTemplate tpl context \<rparr>))))"

text \<open>\<^verbatim>\<open>'skipping: ' + modulePath + (className ? ':' + className : '')\<close>\<close>

definition skippingLine :: "string \<Rightarrow> string option \<Rightarrow> string" where
  "skippingLine modulePath name =
     ''skipping: '' @ modulePath @ (if truthy name then '':'' @ the name else [])"

text \<open>
  \<^verbatim>\<open>new JavascriptWrapper(modulePath, className)\<close> and
  \<^verbatim>\<open>createJavascriptWrapper(modulePath, className)\<close>. Without a class name the
  constructor first generates the extra classes of the same source file, each through
  \<^verbatim>\<open>createJavascriptWrapper\<close>; the natural number is the call stack that is left. The
  constructor returns what it did to the outside, and the wrapper or the error thrown.
\<close>

fun JavascriptWrapper ::
  "templates \<Rightarrow> env \<Rightarrow> classConfigs \<Rightarrow> nat \<Rightarrow> string \<Rightarrow> string option
     \<Rightarrow> effect list \<times> (error + jsWrapper)"
and createJavascriptWrapper ::
  "templates \<Rightarrow> env \<Rightarrow> classConfigs \<Rightarrow> nat \<Rightarrow> string \<Rightarrow> string option
     \<Rightarrow> effect list \<times> outcome"
where
  "JavascriptWrapper tpl env classConfigs 0 modulePath name = ([], Inl RangeError)"
| "JavascriptWrapper tpl env classConfigs (Suc depth) modulePath name =
     (let jsDestPath = path_resolve (cwd env) [jsSrcDir env, modulePath];
          destDir = path_dirname jsDestPath;
          autoDestPath = path_resolve (cwd env)
            [destDir, path_basename jsDestPath ''.js'' @ ''.'' @ AUTOGEN_EXT @ ''.js''];
          overrideLog = (\<lambda>r. case r of
                              Inl e \<Rightarrow> []
                            | Inr w \<Rightarrow> if js_hasOverride w
                                       then [ConsoleLog (''JS override exists for '' @ js_className (js_context w))]
                                       else [])
      in
      if truthy name then
        (let r = js_construct tpl env classConfigs depth modulePath (the name)
                   (path_resolve (cwd env)
                      [path_dirname autoDestPath, the name @ ''.'' @ AUTOGEN_EXT @ ''.js''])
         in (overrideLog r, r))
      else
        (let clsName = replaceDots (path_basename modulePath ''.js'') in
         case getExtraDefines classConfigs clsName of
           Inl e \<Rightarrow> ([], Inl e)
         | Inr extraDefines \<Rightarrow>
             let r = js_construct tpl env classConfigs depth modulePath clsName autoDestPath
             in ((if extraDefines \<noteq> []
                  then [ConsoleLog (''extra defines found: '' @ joinWith '','' extraDefines)]
                  else [])
                 @ concat (map (\<lambda>extraClassName.
                      fst (createJavascriptWrapper tpl env classConfigs depth modulePath
                             (Some extraClassName))) extraDefines)
                 @ overrideLog r, r)))"
| "createJavascriptWrapper tpl env classConfigs depth modulePath name =
     (case JavascriptWrapper tpl env classConfigs depth modulePath name of
        (effects, Inl e) \<Rightarrow>
          (effects @ [ConsoleLog ''error creating wrapper: '', ConsoleLogError e,
                      ConsoleLog (skippingLine modulePath name)], Skipped)
      | (effects, Inr wrapper) \<Rightarrow>
          (effects @ [OutputFile (jsAutoDestPath wrapper) (js_output wrapper)], Written))"

subsection \<open>The Python wrapper\<close>

record pyWrapper =
  pyAutoDestPath :: string
  py_config :: resolvedConfig
  py_context :: pyContext
  py_output :: string

text \<open>The module a Python reference points at: the hand-written module when its
  \<^verbatim>\<open>.py\<close> file exists, the generated \<^verbatim>\<open>_autogen\<close> module otherwise.\<close>

definition pyResolvedModule :: "env \<Rightarrow> string \<Rightarrow> string" where
  "pyResolvedModule env absPath =
     (if \<not> existsSync env (absPath @ ''.py'') then absPath @ ''_'' @ AUTOGEN_EXT else absPath)"

definition py_getRequireInfoFromClassDescriptor ::
  "env \<Rightarrow> classConfigs \<Rightarrow> nat \<Rightarrow> string \<Rightarrow> string option \<Rightarrow> error + pyRequireInfo" where
  "py_getRequireInfoFromClassDescriptor env classConfigs depth destDirAbsolutePath classDescriptor =
     (case classOfDescriptor depth classConfigs classDescriptor of
        Inl e \<Rightarrow> Inl e
      | Inr (name, rel) \<Rightarrow>
          (case rel of
             None \<Rightarrow> Inl TypeError
           | Some rel \<Rightarrow>
               let absPath = pyResolvedModule env (path_resolve (cwd env) [pySrcDir env, rel]);
                   reqPath = path_relative (cwd env) destDirAbsolutePath absPath
               in Inr \<lparr> className = name, refRelativePath = rel, absolutePath = absPath,
                        requirePath = reqPath,
                        pyRelativePath = relativePathToPythonImportPath reqPath \<rparr>))"

text \<open>\<^verbatim>\<open>if (x.className === 'Three') { x.className = 'ThreeWidget'; }\<close>\<close>

definition renameThree :: "pyRequireInfo \<Rightarrow> pyRequireInfo" where
  "renameThree info =
     (if className info = ''Three'' then info\<lparr> className := ''ThreeWidget'' \<rparr> else info)"

definition py_processSuperClass ::
  "env \<Rightarrow> classConfigs \<Rightarrow> nat \<Rightarrow> string \<Rightarrow> resolvedConfig \<Rightarrow> error + pyRequireInfo" where
  "py_processSuperClass env classConfigs depth destDirAbsolutePath config =
     (case py_getRequireInfoFromClassDescriptor env classConfigs depth destDirAbsolutePath
             (superClass config) of
        Inl e \<Rightarrow> Inl e
      | Inr info \<Rightarrow> Inr (renameThree info))"

definition py_addDependency ::
  "env \<Rightarrow> classConfigs \<Rightarrow> nat \<Rightarrow> string \<Rightarrow> string \<Rightarrow> (string \<times> pyRequireInfo) list
     \<Rightarrow> error + (string \<times> pyRequireInfo) list" where
  "py_addDependency env classConfigs depth destDirAbsolutePath name result =
     (case py_getRequireInfoFromClassDescriptor env classConfigs depth destDirAbsolutePath
             (Some name) of
        Inl e \<Rightarrow> Inl e
      | Inr info \<Rightarrow> Inr (AList.update name info result))"

definition py_inferDependency ::
  "env \<Rightarrow> classConfigs \<Rightarrow> nat \<Rightarrow> string \<Rightarrow> propDescriptor \<Rightarrow> (string \<times> pyRequireInfo) list
     \<Rightarrow> error + (string \<times> pyRequireInfo) list" where
  "py_inferDependency env classConfigs depth destDirAbsolutePath p result =
     (if referencesThreeType p then
        (case typeName p of
           TNString t \<Rightarrow>
             if t \<noteq> ''this''
             then (let t' = (if t \<noteq> [] then t else ''./_base/Three'') in
                   case py_getRequireInfoFromClassDescriptor env classConfigs depth
                          destDirAbsolutePath (Some t') of
                     Inl e \<Rightarrow> Inl e
                   | Inr info \<Rightarrow> Inr (AList.update t' (renameThree info) result))
             else Inr result
         | TNArray ts \<Rightarrow>
             foldE (py_addDependency env classConfigs depth destDirAbsolutePath) ts result
         | TNUndefined \<Rightarrow> Inr result)
      else Inr result)"

definition py_processDependencies ::
  "env \<Rightarrow> classConfigs \<Rightarrow> nat \<Rightarrow> string \<Rightarrow> resolvedConfig
     \<Rightarrow> error + (string \<times> pyRequireInfo) list" where
  "py_processDependencies env classConfigs depth destDirAbsolutePath config =
     (case foldE (py_addDependency env classConfigs depth destDirAbsolutePath)
             (orEmpty (dependencies config)) [] of
        Inl e \<Rightarrow> Inl e
      | Inr explicit \<Rightarrow>
          foldE (py_inferDependency env classConfigs depth destDirAbsolutePath)
            (map snd (orEmpty (properties config))) explicit)"

definition py_processProperties :: "resolvedConfig \<Rightarrow> (string \<times> pyPropRender) list" where
  "py_processProperties config =
     map (\<lambda>(propName, p).
            (propName, \<lparr> defaultJson = getPythonDefaultValue p,
                         trait_declaration = getTraitlet p \<rparr>))
         (orEmpty (properties config))"

definition py_processConstructorArgs :: "resolvedConfig \<Rightarrow> error + (string \<times> string) list" where
  "py_processConstructorArgs config =
     (case constructorArgs config of
        None \<Rightarrow> Inl TypeError
      | Some args \<Rightarrow>
          mapE (\<lambda>propName.
                  if propName = ''parameters'' then Inr (propName, ''{}'')
                  else (case map_of (allProperties config) propName of
                          None \<Rightarrow> Inl TypeError
                        | Some p \<Rightarrow> Inr (propName, getPythonDefaultValue p)))
               args)"

text \<open>\<^verbatim>\<open>processDocsUrl\<close>. The assignment of \<^verbatim>\<open>null\<close> for a custom class is overwritten
  by the lines after it.\<close>

definition processDocsUrl :: "string \<Rightarrow> string" where
  "processDocsUrl modulePath =
     (let refTokens = splitOn isPathSep modulePath;
          refTokens = butlast refTokens @ [path_basename (last refTokens) ''.js''];
          refUrl = ''http://threejs.org/docs/#api/'' @ joinWith ''/'' refTokens;
          refUrl = replaceFirst ''Renderers/WebGL/Plugins/'' ''Renderers.WebGL.Plugins/'' refUrl;
          refUrl = replaceFirst ''Renderers/WebGL/'' ''Renderers.WebGL/'' refUrl;
          refUrl = replaceFirst ''Renderers/Shaders/'' ''Renderers.Shaders/'' refUrl;
          refUrl = replaceFirst ''Extras/Animation/'' ''Extras.Animation/'' refUrl;
          refUrl = replaceFirst ''Extras/Core/'' ''Extras.Core/'' refUrl;
          refUrl = replaceFirst ''Extras/Curves/'' ''Extras.Curves/'' refUrl;
          refUrl = replaceFirst ''Extras/Geometries/'' ''Extras.Geometries/'' refUrl;
          refUrl = replaceFirst ''Extras/Helpers/'' ''Extras.Helpers/'' refUrl;
          refUrl = replaceFirst ''Extras/Objects/'' ''Extras.Objects/'' refUrl
      in refUrl)"

text \<open>The constructor of \<^verbatim>\<open>PythonWrapper\<close> after the class name is fixed.\<close>

definition py_construct ::
  "templates \<Rightarrow> env \<Rightarrow> classConfigs \<Rightarrow> nat \<Rightarrow> string \<Rightarrow> string \<Rightarrow> error + pyWrapper" where
  "py_construct tpl env classConfigs depth modulePath name =
     (let dirRelativePath = path_dirname modulePath;
          destDirAbsolutePath = path_resolve (cwd env) [pySrcDir env, dirRelativePath];
          pyDestPath = path_resolve (cwd env) [destDirAbsolutePath, name @ ''.py''];
          autoDestPath =
            path_resolve (cwd env) [destDirAbsolutePath, name @ ''_'' @ AUTOGEN_EXT @ ''.py''];
          pyBaseRelativePath = relativePathToPythonImportPath
            (path_relative (cwd env) destDirAbsolutePath (pySrcDir env));
          hasOverride = existsSync env pyDestPath;
          custom = (modulePath \<in> set CUSTOM_CLASSES)
      in
      case getClassConfig depth classConfigs name of
        Inl e \<Rightarrow> Inl e
      | Inr config \<Rightarrow>
          (case py_processSuperClass env classConfigs depth destDirAbsolutePath config of
             Inl e \<Rightarrow> Inl e
           | Inr superInfo \<Rightarrow>
               (case py_processDependencies env classConfigs depth destDirAbsolutePath config of
                  Inl e \<Rightarrow> Inl e
                | Inr deps \<Rightarrow>
                    (case py_processConstructorArgs config of
                       Inl e \<Rightarrow> Inl e
                     | Inr args \<Rightarrow>
                         let context =
                               \<lparr> now = clock env, generatorScriptName = scriptName,
                                 threejs_docs_url = processDocsUrl modulePath,
                                 py_base_relative_path = pyBaseRelativePath,
                                 py_constructor_args = args,
                                 hasParameters = (''parameters'' \<in> set (orEmpty (constructorArgs config))),
                                 py_className = name, py_modelName = name @ ''Model'',
                                 py_superClass = superInfo,
                                 py_properties = py_processProperties config,
                                 py_dependencies = deps,
                                 py_hasOverride = hasOverride, isCustom = custom \<rparr>
                         in Inr \<lparr> pyAutoDestPath = autoDestPath, py_config = config,
                                  py_context = context,
                                  py_output = pyWrapperTemplate tpl context \<rparr>))))"

fun PythonWrapper ::
  "templates \<Rightarrow> env \<Rightarrow> classConfigs \<Rightarrow> nat \<Rightarrow> string \<Rightarrow> string option
     \<Rightarrow> effect list \<times> (error + pyWrapper)"
and createPythonWrapper ::
  "templates \<Rightarrow> env \<Rightarrow> classConfigs \<Rightarrow> nat \<Rightarrow> string \<Rightarrow> string option
     \<Rightarrow> effect list \<times> outcome"
where
  "PythonWrapper tpl env classConfigs 0 modulePath name = ([], Inl RangeError)"
| "PythonWrapper tpl env classConfigs (Suc depth) modulePath name =
     (if truthy name then
        ([], py_construct tpl env classConfigs depth modulePath (the name))
      else
        (let clsName = replaceDots (path_basename modulePath ''.js'') in
         case getExtraDefines classConfigs clsName of
           Inl e \<Rightarrow> ([], Inl e)
         | Inr extraDefines \<Rightarrow>
             ((if extraDefines \<noteq> []
               then [ConsoleLog (''extra defines found: '' @ joinWith '','' extraDefines)]
               else [])
              @ concat (map (\<lambda>extraClassName.
                   fst (createPythonWrapper tpl env classConfigs depth modulePath
                          (Some extraClassName))) extraDefines),
              py_construct tpl env classConfigs depth modulePath clsName)))"
| "createPythonWrapper tpl env classConfigs depth modulePath name =
     (case PythonWrapper tpl env classConfigs depth modulePath name of
        (effects, Inl e) \<Rightarrow>
          (effects @ [ConsoleLogError e, ConsoleLog (skippingLine modulePath name)], Skipped)
      | (effects, Inr wrapper) \<Rightarrow>
          (effects @ [OutputFile (pyAutoDestPath wrapper) (py_output wrapper)], Written))"

subsection \<open>Index files\<close>













subsection \<open>The whole run\<close>

text \<open>
  The promises of a run settle in an order the script does not fix; the effects are listed
  here in the order the calls are written.
\<close>

definition mapPromiseFnOverFileList ::
  "string list \<Rightarrow> (string \<Rightarrow> effect list \<times> 'a) \<Rightarrow> effect list \<times> 'a list" where
  "mapPromiseFnOverFileList fileList mapFn =
     (concat (map (\<lambda>filePath. fst (mapFn filePath)) fileList),
      map (\<lambda>filePath. snd (mapFn filePath)) fileList)"




subsection \<open>Predicates used in the statements\<close>

text \<open>The entry of a key in a JavaScript reference mapping is what
  \<^verbatim>\<open>getRequireInfoFromClassDescriptor\<close> returns for that key.\<close>

definition jsEntryResolved ::
  "env \<Rightarrow> classConfigs \<Rightarrow> nat \<Rightarrow> string \<Rightarrow> string \<Rightarrow> (string \<times> jsRequireInfo) list \<Rightarrow> bool" where
  "jsEntryResolved env classConfigs depth destDir key result =
     (case js_getRequireInfoFromClassDescriptor env classConfigs depth destDir (Some key) of
        Inl e \<Rightarrow> False
      | Inr info \<Rightarrow> map_of result key = Some info)"

text \<open>The entry of a key in a Python reference mapping is what
  \<^verbatim>\<open>getRequireInfoFromClassDescriptor\<close> returns for that key, as it is
  (\<open>pyEntryVerbatim\<close>) or with \<open>Three\<close> renamed (\<open>pyEntryRenamed\<close>).\<close>

definition pyEntryVerbatim ::
  "env \<Rightarrow> classConfigs \<Rightarrow> nat \<Rightarrow> string \<Rightarrow> string \<Rightarrow> (string \<times> pyRequireInfo) list \<Rightarrow> bool" where
  "pyEntryVerbatim env classConfigs depth destDir key result =
     (case py_getRequireInfoFromClassDescriptor env classConfigs depth destDir (Some key) of
        Inl e \<Rightarrow> False
      | Inr info \<Rightarrow> map_of result key = Some info)"

definition pyEntryRenamed ::
  "env \<Rightarrow> classConfigs \<Rightarrow> nat \<Rightarrow> string \<Rightarrow> string \<Rightarrow> (string \<times> pyRequireInfo) list \<Rightarrow> bool" where
  "pyEntryRenamed env classConfigs depth destDir key result =
     (case py_getRequireInfoFromClassDescriptor env classConfigs depth destDir (Some key) of
        Inl e \<Rightarrow> False
      | Inr info \<Rightarrow> map_of result key = Some (renameThree info))"

text \<open>The directory of the file being generated, which the import paths are relative to:
  \<^verbatim>\<open>this.destDir\<close> of the JavaScript wrapper and \<^verbatim>\<open>this.destDirAbsolutePath\<close> of the
  Python wrapper.\<close>

definition jsDestDir :: "env \<Rightarrow> string \<Rightarrow> string" where
  "jsDestDir env modulePath = path_dirname (path_resolve (cwd env) [jsSrcDir env, modulePath])"

definition pyDestDir :: "env \<Rightarrow> string \<Rightarrow> string" where
  "pyDestDir env modulePath = path_resolve (cwd env) [pySrcDir env, path_dirname modulePath]"


section \<open>Example tables\<close>

definition exampleDefaults :: classConfig where
  "exampleDefaults = noConfig\<lparr> superClass := Some ''./_base/Three'', properties := Some [],
                                 constructorArgs := Some [], dependencies := Some [] \<rparr>"

text \<open>Two classes that name each other as superclass.\<close>

definition cyclicConfigs :: classConfigs where
  "cyclicConfigs =
     [(''_defaults'', exampleDefaults),
      (''A'', noConfig\<lparr> relativePath := Some ''./core/A'', superClass := Some ''B'' \<rparr>),
      (''B'', noConfig\<lparr> relativePath := Some ''./core/B'', superClass := Some ''A'' \<rparr>)]"

text \<open>Property descriptors for the examples: a plain value, and a reference to a class.\<close>

definition plainProp :: "string \<Rightarrow> propDescriptor" where
  "plainProp dflt =
     \<lparr> propClass = OtherType, typeName = TNUndefined, serializer = None, enumTypeName = None,
       getJSPropertyValue = dflt, getPropArrayName = None, getPropertyConverterFn = None,
       getPropertyAssignmentFn = None, getTraitlet = ''CFloat('' @ dflt @ '').tag(sync=True)'',
       getPythonDefaultValue = dflt \<rparr>"

definition threeProp :: "propClass \<Rightarrow> typeNameValue \<Rightarrow> propDescriptor" where
  "threeProp cls tn =
     \<lparr> propClass = cls, typeName = tn, serializer = Some ''serializers.unpackThreeModel'',
       enumTypeName = None, getJSPropertyValue = ''null'', getPropArrayName = Some ''three_properties'',
       getPropertyConverterFn = Some ''convertThreeType'', getPropertyAssignmentFn = None,
       getTraitlet = ''Instance(ThreeWidget).tag(sync=True)'', getPythonDefaultValue = ''None'' \<rparr>"

text \<open>A class \<open>A\<close> whose superclass is not in the table, and a class \<open>User\<close> with a
  property that refers to \<open>A\<close>.\<close>

definition orphanConfigs :: classConfigs where
  "orphanConfigs =
     [(''_defaults'', exampleDefaults),
      (''Base'', noConfig\<lparr> relativePath := Some ''./core/Base'' \<rparr>),
      (''A'', noConfig\<lparr> relativePath := Some ''./core/A'', superClass := Some ''B'' \<rparr>),
      (''User'', noConfig\<lparr> relativePath := Some ''./core/User'', superClass := Some ''Base'',
                            properties := Some [(''link'', threeProp ThreeType (TNString ''A''))] \<rparr>)]"

text \<open>A chain \<open>C \<rightarrow> B \<rightarrow> A\<close> in which \<open>B\<close> redefines \<open>y\<close> of \<open>A\<close> and \<open>C\<close> redefines
  \<open>z\<close> of \<open>B\<close>.\<close>

definition shadowConfigs :: classConfigs where
  "shadowConfigs =
     [(''_defaults'', exampleDefaults),
      (''A'', noConfig\<lparr> relativePath := Some ''./core/A'',
                         properties := Some [(''x'', plainProp ''1''), (''y'', plainProp ''1'')] \<rparr>),
      (''B'', noConfig\<lparr> relativePath := Some ''./core/B'', superClass := Some ''A'',
                         properties := Some [(''y'', plainProp ''2''), (''z'', plainProp ''2'')] \<rparr>),
      (''C'', noConfig\<lparr> relativePath := Some ''./core/C'', superClass := Some ''B'',
                         properties := Some [(''z'', plainProp ''3''), (''w'', plainProp ''3'')] \<rparr>)]"


text \<open>\<open>Ring\<close> and \<open>RingOutline\<close> share the source file \<^verbatim>\<open>shapes/Ring.js\<close>, and a class
  \<open>User\<close> has one property that refers to each of them.\<close>

definition sharedUnitConfigs :: classConfigs where
  "sharedUnitConfigs =
     [(''_defaults'', exampleDefaults),
      (''Base'', noConfig\<lparr> relativePath := Some ''./core/Base'' \<rparr>),
      (''Ring'', noConfig\<lparr> relativePath := Some ''./shapes/Ring'', superClass := Some ''Base'' \<rparr>),
      (''RingOutline'', noConfig\<lparr> relativePath := Some ''./shapes/Ring'',
                                   superClass := Some ''Base'' \<rparr>),
      (''User'', noConfig\<lparr> relativePath := Some ''./core/User'', superClass := Some ''Base'',
                            properties := Some
                              [(''outline'', threeProp ThreeType (TNString ''RingOutline'')),
                               (''ring'', threeProp ThreeType (TNString ''Ring''))] \<rparr>)]"

text \<open>A class with references: \<open>geometry\<close> names one class, \<open>parts\<close> an array of
  descriptors, \<open>target\<close> is an unnamed reference, \<open>owner\<close> refers to the class itself, and
  one dependency is listed explicitly. Its superclass \<open>Base\<close> has a reference of its own,
  \<open>parent\<close>, which \<open>Mesh\<close> inherits.\<close>

definition meshConfigs :: classConfigs where
  "meshConfigs =
     [(''_defaults'', exampleDefaults),
      (''Base'', noConfig\<lparr> relativePath := Some ''./core/Base'',
                            properties := Some [(''color'', plainProp ''0''),
                                                (''parent'', threeProp ThreeType (TNString ''Helper''))] \<rparr>),
      (''Shape'', noConfig\<lparr> relativePath := Some ''./shapes/Shape'', superClass := Some ''Base'',
                             properties := Some [(''radius'', plainProp ''1'')] \<rparr>),
      (''Mesh'', noConfig\<lparr> relativePath := Some ''./objects/Mesh'', superClass := Some ''Base'',
                            dependencies := Some [''./lib/Three''],
                            properties := Some
                              [(''geometry'', threeProp ThreeType (TNString ''Shape'')),
                               (''parts'', threeProp ThreeTypeArray (TNArray [''Base'', ''./extras/Three.js''])),
                               (''target'', threeProp ThreeType (TNString [])),
                               (''owner'', threeProp ThreeType (TNString ''this''))] \<rparr>)]"

text \<open>A tree with no hand-written file, and one in which \<open>Shape\<close> has an override in both
  languages.\<close>

definition exampleEnv :: env where
  "exampleEnv =
     \<lparr> cwd = ''/repo/js'', jsSrcDir = ''/repo/js/src'', pySrcDir = ''/repo/pythreejs'',
       existsSync = (\<lambda>p. p = ''/repo/pythreejs''), clock = Date 0,
       threeModules = [''core/Base.js'', ''shapes/Shape.js'', ''shapes/Ring.js''],
       jsDirs = [''core/'', ''shapes/''], readdir = (\<lambda>d. []), pyFiles = [] \<rparr>"

definition overrideEnv :: env where
  "overrideEnv =
     exampleEnv\<lparr> existsSync := (\<lambda>p. p \<in> set [''/repo/pythreejs'', ''/repo/js/src/shapes/Shape.js'',
                                                 ''/repo/pythreejs/shapes/Shape.py'']) \<rparr>"

text \<open>A tree in which \<open>RingOutline\<close> has a hand-written file in both languages.\<close>

definition outlineEnv :: env where
  "outlineEnv =
     exampleEnv\<lparr> existsSync := (\<lambda>p. p \<in> set [''/repo/pythreejs'', ''/repo/js/src/shapes/RingOutline.js'',
                                                 ''/repo/pythreejs/shapes/RingOutline.py'']) \<rparr>"

text \<open>Templates for the examples: one that prints the class name only, one that also
  prints the time of the run.\<close>

definition plainTemplates :: templates where
  "plainTemplates =
     \<lparr> jsWrapperTemplate = (\<lambda>c. ''// '' @ js_className c),
       jsIndexTemplate = (\<lambda>c. joinWith [CHR 0x0A] (submodules c)),
       pyWrapperTemplate = (\<lambda>c. ''# '' @ py_className c),
       pyTopLevelInitTemplate = (\<lambda>c. joinWith [CHR 0x0A] (modules c)) \<rparr>"



section \<open>Properties\<close>

subsection \<open>Configuration resolution\<close>

lemma lookupClass_own: "map_of st n = Some c \<Longrightarrow> lookupClass st n = Some c"
  by (simp add: lookupClass_def)

lemma lookupClass_present: "map_of st n \<noteq> None \<Longrightarrow> lookupClass st n \<noteq> None"
  by (auto simp: lookupClass_def)

lemma lookupClass_absent:
  "map_of st n = None \<Longrightarrow> n \<notin> set objectPrototypeNames \<Longrightarrow> lookupClass st n = None"
  by (simp add: lookupClass_def)

lemma map_of_assign:
  "distinct (map fst source) \<Longrightarrow> map_of (assign target source) = map_of target ++ map_of source"
proof (induction source arbitrary: target)
  case Nil
  then show ?case by (simp add: assign_def)
next
  case (Cons kv source)
  obtain k v where kv: "kv = (k, v)" by (cases kv)
  from Cons.prems kv have nk: "k \<notin> fst ` set source" and d: "distinct (map fst source)"
    by auto
  have "map_of (assign target (kv # source)) = map_of (assign (AList.update k v target) source)"
    by (simp add: assign_def kv)
  also have "\<dots> = (map_of target)(k \<mapsto> v) ++ map_of source"
    by (simp only: Cons.IH [OF d] update_conv')
  also have "\<dots> = map_of target ++ map_of (kv # source)"
  proof (rule ext)
    fix x
    have none: "map_of source k = None"
      using nk by (simp add: map_of_eq_None_iff)
    show "((map_of target)(k \<mapsto> v) ++ map_of source) x = (map_of target ++ map_of (kv # source)) x"
      using none by (cases "x = k") (simp_all add: kv map_add_def split: option.splits)
  qed
  finally show ?case .
qed

lemma allProperties_buildConfig:
  "allProperties (buildConfig cur sc dflt) =
     assign (case sc of None \<Rightarrow> [] | Some s \<Rightarrow> allProperties s) (orEmpty (properties cur))"
  by (simp add: buildConfig_def applyDefaults_def classConfig.extend_def resolvedConfig.fields_def
      split: option.splits)

lemma getClassConfig_root:
  assumes "lookupClass st (replaceDots name) = Some cur" and "hasSuperClass st cur = Inr False"
  shows "getClassConfig (Suc d) st name = Inr (buildConfig cur None (map_of st ''_defaults''))"
  using assms by simp

lemma getClassConfig_step:
  assumes "lookupClass st (replaceDots name) = Some cur" and "hasSuperClass st cur = Inr True"
  shows "getClassConfig (Suc d) st name =
           (case getClassConfig d st (the (superClass cur)) of
              Inl e \<Rightarrow> Inl e
            | Inr sc \<Rightarrow> Inr (buildConfig cur (Some sc) (map_of st ''_defaults'')))"
  using assms by simp

lemma getClassConfig_absent:
  assumes "lookupClass st (replaceDots name) = None"
  shows "getClassConfig (Suc d) st name = Inl (InvalidClassName (replaceDots name))"
  using assms by simp

text \<open>
  Claim C7, as amended. A class name whose form with every dot replaced by an underscore is
  not a key of the table, and is not the name of a member that every JavaScript object
  inherits (\<open>toString\<close>, \<open>constructor\<close> and the like), ends in the ``invalid class name''
  error, never in a default or partial configuration. A name that is a key gives a resolved
  configuration when the class is a root (no superclass, an empty one, or the default
  superclass); a class with a further superclass gives one exactly when its superclass
  resolves, and otherwise fails with the error of the superclass's resolution. In a table
  without \<^verbatim>\<open>_defaults\<close> a class that names a superclass fails with the TypeError of
  reading \<^verbatim>\<open>classConfigs._defaults.superClass\<close>.
\<close>

theorem getClassConfig_unknown_or_resolved:
  "(map_of st (replaceDots name) = None \<and> replaceDots name \<notin> set objectPrototypeNames \<longrightarrow>
      getClassConfig (Suc d) st name = Inl (InvalidClassName (replaceDots name))) \<and>
   (\<forall>cur. map_of st (replaceDots name) = Some cur \<and> hasSuperClass st cur = Inr False \<longrightarrow>
      (\<exists>r. getClassConfig (Suc d) st name = Inr r)) \<and>
   (\<forall>cur. map_of st (replaceDots name) = Some cur \<and> hasSuperClass st cur = Inr True \<longrightarrow>
      getClassConfig (Suc d) st name =
        (case getClassConfig d st (the (superClass cur)) of
           Inl e \<Rightarrow> Inl e
         | Inr sc \<Rightarrow> Inr (buildConfig cur (Some sc) (map_of st ''_defaults'')))) \<and>
   (\<forall>cur e. map_of st (replaceDots name) = Some cur \<and> hasSuperClass st cur = Inl e \<longrightarrow>
      e = TypeError \<and> map_of st ''_defaults'' = None \<and> getClassConfig (Suc d) st name = Inl e)"
proof (intro conjI allI impI)
  assume "map_of st (replaceDots name) = None \<and> replaceDots name \<notin> set objectPrototypeNames"
  then have "lookupClass st (replaceDots name) = None"
    by (simp add: lookupClass_absent)
  then show "getClassConfig (Suc d) st name = Inl (InvalidClassName (replaceDots name))"
    by (rule getClassConfig_absent)
next
  fix cur
  assume "map_of st (replaceDots name) = Some cur \<and> hasSuperClass st cur = Inr False"
  then have "getClassConfig (Suc d) st name = Inr (buildConfig cur None (map_of st ''_defaults''))"
    by (intro getClassConfig_root lookupClass_own) simp_all
  then show "\<exists>r. getClassConfig (Suc d) st name = Inr r" ..
next
  fix cur
  assume "map_of st (replaceDots name) = Some cur \<and> hasSuperClass st cur = Inr True"
  then show "getClassConfig (Suc d) st name =
        (case getClassConfig d st (the (superClass cur)) of
           Inl e \<Rightarrow> Inl e
         | Inr sc \<Rightarrow> Inr (buildConfig cur (Some sc) (map_of st ''_defaults'')))"
    by (intro getClassConfig_step lookupClass_own) simp_all
next
  fix cur e
  assume h: "map_of st (replaceDots name) = Some cur \<and> hasSuperClass st cur = Inl e"
  then show "e = TypeError"
    by (auto simp: hasSuperClass_def split: if_splits option.splits)
  from h show "map_of st ''_defaults'' = None"
    by (auto simp: hasSuperClass_def split: if_splits option.splits)
  from h show "getClassConfig (Suc d) st name = Inl e"
    by (simp add: lookupClass_own)
qed

theorem getClassConfig_unknown_or_resolved_witness:
  "getClassConfig 3 orphanConfigs ''Ghost'' = Inl (InvalidClassName ''Ghost'') \<and>
   getClassConfig 3 orphanConfigs ''Three.Legacy'' = Inl (InvalidClassName ''Three_Legacy'') \<and>
   (\<exists>r. getClassConfig 3 orphanConfigs ''Base'' = Inr r) \<and>
   getClassConfig 3 orphanConfigs ''A'' = Inl (InvalidClassName ''B'') \<and>
   getClassConfig 3 [(''A'', noConfig\<lparr> superClass := Some ''B'' \<rparr>)] ''A'' = Inl TypeError"
proof -
  have three: "(3::nat) = Suc 2" and two: "(2::nat) = Suc 1" by simp_all
  have r: "replaceDots ''Ghost'' = ''Ghost''" "replaceDots ''Three.Legacy'' = ''Three_Legacy''"
    "replaceDots ''B'' = ''B''"
    by (simp_all add: replaceDots_def)
  have absent: "map_of orphanConfigs (replaceDots ''Ghost'') = None \<and>
                  replaceDots ''Ghost'' \<notin> set objectPrototypeNames"
    "map_of orphanConfigs (replaceDots ''Three.Legacy'') = None \<and>
       replaceDots ''Three.Legacy'' \<notin> set objectPrototypeNames"
    "map_of orphanConfigs (replaceDots ''B'') = None \<and> replaceDots ''B'' \<notin> set objectPrototypeNames"
    by (simp_all add: r orphanConfigs_def objectPrototypeNames_def)
  have base: "map_of orphanConfigs (replaceDots ''Base'') = Some (noConfig\<lparr> relativePath := Some ''./core/Base'' \<rparr>)
      \<and> hasSuperClass orphanConfigs (noConfig\<lparr> relativePath := Some ''./core/Base'' \<rparr>) = Inr False"
    by (simp add: orphanConfigs_def replaceDots_def hasSuperClass_def noConfig_def)
  have a: "map_of orphanConfigs (replaceDots ''A'') = Some (noConfig\<lparr> relativePath := Some ''./core/A'', superClass := Some ''B'' \<rparr>)
      \<and> hasSuperClass orphanConfigs (noConfig\<lparr> relativePath := Some ''./core/A'', superClass := Some ''B'' \<rparr>) = Inr True"
    by (simp add: orphanConfigs_def replaceDots_def hasSuperClass_def noConfig_def exampleDefaults_def)
  have 1: "getClassConfig 3 orphanConfigs ''Ghost'' = Inl (InvalidClassName ''Ghost'')"
    using getClassConfig_unknown_or_resolved [of orphanConfigs "''Ghost''" 2, THEN conjunct1, THEN mp, OF absent(1)]
    by (simp only: three r)
  have 2: "getClassConfig 3 orphanConfigs ''Three.Legacy'' = Inl (InvalidClassName ''Three_Legacy'')"
    using getClassConfig_unknown_or_resolved [of orphanConfigs "''Three.Legacy''" 2, THEN conjunct1, THEN mp, OF absent(2)]
    by (simp only: three r)
  have 3: "\<exists>r. getClassConfig 3 orphanConfigs ''Base'' = Inr r"
    using getClassConfig_unknown_or_resolved [of orphanConfigs "''Base''" 2, THEN conjunct2, THEN conjunct1, THEN spec, THEN mp, OF base]
    by (simp only: three)
  have b: "getClassConfig 2 orphanConfigs ''B'' = Inl (InvalidClassName ''B'')"
    using getClassConfig_unknown_or_resolved [of orphanConfigs "''B''" 1, THEN conjunct1, THEN mp, OF absent(3)]
    by (simp only: two r)
  have "getClassConfig 3 orphanConfigs ''A'' =
        (case getClassConfig 2 orphanConfigs (the (superClass (noConfig\<lparr> relativePath := Some ''./core/A'', superClass := Some ''B'' \<rparr>))) of
           Inl e \<Rightarrow> Inl e
         | Inr sc \<Rightarrow> Inr (buildConfig (noConfig\<lparr> relativePath := Some ''./core/A'', superClass := Some ''B'' \<rparr>) (Some sc) (map_of orphanConfigs ''_defaults'')))"
    using getClassConfig_unknown_or_resolved [of orphanConfigs "''A''" 2, THEN conjunct2, THEN conjunct2, THEN conjunct1, THEN spec, THEN mp, OF a]
    by (simp only: three)
  then have 4: "getClassConfig 3 orphanConfigs ''A'' = Inl (InvalidClassName ''B'')"
    using b by simp
  have nodefaults: "map_of [(''A'', noConfig\<lparr> superClass := Some ''B'' \<rparr>)] (replaceDots ''A'') =
        Some (noConfig\<lparr> superClass := Some ''B'' \<rparr>) \<and>
      hasSuperClass [(''A'', noConfig\<lparr> superClass := Some ''B'' \<rparr>)] (noConfig\<lparr> superClass := Some ''B'' \<rparr>) =
        Inl TypeError"
    by (simp add: replaceDots_def hasSuperClass_def noConfig_def)
  have 5: "getClassConfig 3 [(''A'', noConfig\<lparr> superClass := Some ''B'' \<rparr>)] ''A'' = Inl TypeError"
    using getClassConfig_unknown_or_resolved [of "[(''A'', noConfig\<lparr> superClass := Some ''B'' \<rparr>)]" "''A''" 2,
        THEN conjunct2, THEN conjunct2, THEN conjunct2, THEN spec, THEN spec, THEN mp, OF nodefaults]
    by (simp only: three)
  from 1 2 3 4 5 show ?thesis by (intro conjI)
qed

text \<open>
  The claim as stated fails: \<open>A\<close> is a key of the table, and resolving it fails because its
  superclass \<open>B\<close> is not.
\<close>

theorem getClassConfig_unknown_class_counterexample:
  "map_of orphanConfigs ''A'' \<noteq> None \<and>
   getClassConfig 8 orphanConfigs ''A'' = Inl (InvalidClassName ''B'')"
  by (simp add: orphanConfigs_def exampleDefaults_def noConfig_def hasSuperClass_def
      replaceDots_def eval_nat_numeral lookupClass_def objectPrototypeNames_def)

text \<open>
  Claim C1, as amended. \<^verbatim>\<open>getClassConfig\<close> has no cycle check. When the superclass
  references reachable from a class never reach a root (every class on the way is in the
  table and names a further superclass, as on a cycle), the recursion uses up whatever call
  stack it is given and ends in the engine's RangeError; it yields neither a configuration
  nor an error of its own.
\<close>

theorem getClassConfig_cycle_exhausts_stack:
  assumes closed: "\<forall>n \<in> S. \<exists>cur. map_of st n = Some cur \<and> hasSuperClass st cur = Inr True \<and>
                      replaceDots (the (superClass cur)) \<in> S"
    and start: "replaceDots C \<in> S"
  shows "getClassConfig d st C = Inl RangeError"
  using start
proof (induction d arbitrary: C)
  case 0
  show ?case by simp
next
  case (Suc d)
  from closed Suc.prems obtain cur where cur: "map_of st (replaceDots C) = Some cur"
    "hasSuperClass st cur = Inr True" "replaceDots (the (superClass cur)) \<in> S"
    by blast
  show ?case
    by (simp only: getClassConfig_step [OF lookupClass_own [OF cur(1)] cur(2)]
          Suc.IH [OF cur(3)] sum.case)
qed

theorem getClassConfig_cycle_exhausts_stack_witness:
  "\<forall>d. getClassConfig d cyclicConfigs ''A'' = Inl RangeError"
proof
  fix d
  have "\<forall>n \<in> {''A'', ''B''}. \<exists>cur. map_of cyclicConfigs n = Some cur \<and>
          hasSuperClass cyclicConfigs cur = Inr True \<and>
          replaceDots (the (superClass cur)) \<in> {''A'', ''B''}"
    by (simp add: cyclicConfigs_def exampleDefaults_def noConfig_def hasSuperClass_def replaceDots_def)
  moreover have "replaceDots ''A'' \<in> {''A'', ''B''}"
    by (simp add: replaceDots_def)
  ultimately show "getClassConfig d cyclicConfigs ''A'' = Inl RangeError"
    by (rule getClassConfig_cycle_exhausts_stack)
qed

text \<open>
  The claim as stated fails: on the two-class cycle the recursion is as deep as the stack
  allows, at depth 2 as at depth 64, and the error is the engine's.
\<close>

theorem getClassConfig_cycle_counterexample:
  "getClassConfig 2 cyclicConfigs ''A'' = Inl RangeError \<and>
   getClassConfig 64 cyclicConfigs ''A'' = Inl RangeError"
  by (simp add: cyclicConfigs_def exampleDefaults_def noConfig_def hasSuperClass_def
      replaceDots_def eval_nat_numeral lookupClass_def)

text \<open>
  Claim C2. For a chain \<open>C \<rightarrow> B \<rightarrow> A\<close> that ends at the root, looking a property name up in
  \<^verbatim>\<open>allProperties\<close> of \<open>C\<close> gives the descriptor of \<open>C\<close> when \<open>C\<close> declares the name,
  else the one of \<open>B\<close>, else the one of \<open>A\<close>, and nothing when none declares it: every
  property of the ancestors that is not shadowed is there, and a shadowed one is replaced
  whole by the most derived declaration.
\<close>

theorem allProperties_most_derived_wins:
  assumes C: "map_of st (replaceDots nC) = Some cC" "hasSuperClass st cC = Inr True"
             "superClass cC = Some nB"
    and B: "map_of st (replaceDots nB) = Some cB" "hasSuperClass st cB = Inr True"
           "superClass cB = Some nA"
    and A: "map_of st (replaceDots nA) = Some cA" "hasSuperClass st cA = Inr False"
    and keys: "distinct (map fst (orEmpty (properties cA)))"
              "distinct (map fst (orEmpty (properties cB)))"
              "distinct (map fst (orEmpty (properties cC)))"
    and depth: "3 \<le> d"
  shows "\<exists>r. getClassConfig d st nC = Inr r \<and>
           (\<forall>p. map_of (allProperties r) p =
                  (case map_of (orEmpty (properties cC)) p of
                     Some v \<Rightarrow> Some v
                   | None \<Rightarrow>
                       (case map_of (orEmpty (properties cB)) p of
                          Some v \<Rightarrow> Some v
                        | None \<Rightarrow> map_of (orEmpty (properties cA)) p)))"
proof -
  from depth obtain k where d: "d = Suc (Suc (Suc k))"
    by (metis Suc_le_D numeral_3_eq_3 Suc_le_mono)
  let ?dflt = "map_of st ''_defaults''"
  let ?rA = "buildConfig cA None ?dflt"
  let ?rB = "buildConfig cB (Some ?rA) ?dflt"
  let ?rC = "buildConfig cC (Some ?rB) ?dflt"
  have rA: "getClassConfig (Suc k) st nA = Inr ?rA"
    by (rule getClassConfig_root [OF lookupClass_own [OF A(1)] A(2)])
  have rB: "getClassConfig (Suc (Suc k)) st nB = Inr ?rB"
    by (simp only: getClassConfig_step [OF lookupClass_own [OF B(1)] B(2)] B(3) option.sel rA sum.case)
  have rC: "getClassConfig d st nC = Inr ?rC"
    unfolding d
    by (simp only: getClassConfig_step [OF lookupClass_own [OF C(1)] C(2)] C(3) option.sel rB sum.case)
  have pA: "map_of (allProperties ?rA) = map_of (orEmpty (properties cA))"
    by (simp add: allProperties_buildConfig map_of_assign [OF keys(1)])
  have pB: "map_of (allProperties ?rB) = map_of (orEmpty (properties cA)) ++ map_of (orEmpty (properties cB))"
    by (simp add: allProperties_buildConfig [of cB] map_of_assign [OF keys(2)] pA)
  have pC: "map_of (allProperties ?rC) =
      (map_of (orEmpty (properties cA)) ++ map_of (orEmpty (properties cB))) ++ map_of (orEmpty (properties cC))"
    by (simp add: allProperties_buildConfig [of cC] map_of_assign [OF keys(3)] pB)
  have "\<forall>p. map_of (allProperties ?rC) p =
                  (case map_of (orEmpty (properties cC)) p of
                     Some v \<Rightarrow> Some v
                   | None \<Rightarrow>
                       (case map_of (orEmpty (properties cB)) p of
                          Some v \<Rightarrow> Some v
                        | None \<Rightarrow> map_of (orEmpty (properties cA)) p))"
    by (simp add: pC map_add_def split: option.splits)
  with rC show ?thesis by blast
qed

theorem allProperties_most_derived_wins_witness:
  "\<exists>r. getClassConfig 3 shadowConfigs ''C'' = Inr r \<and>
       map_of (allProperties r) ''x'' = Some (plainProp ''1'') \<and>
       map_of (allProperties r) ''y'' = Some (plainProp ''2'') \<and>
       map_of (allProperties r) ''z'' = Some (plainProp ''3'') \<and>
       map_of (allProperties r) ''w'' = Some (plainProp ''3'') \<and>
       map_of (allProperties r) ''v'' = None"
proof -
  let ?A = "noConfig\<lparr> relativePath := Some ''./core/A'',
              properties := Some [(''x'', plainProp ''1''), (''y'', plainProp ''1'')] \<rparr>"
  let ?B = "noConfig\<lparr> relativePath := Some ''./core/B'', superClass := Some ''A'',
              properties := Some [(''y'', plainProp ''2''), (''z'', plainProp ''2'')] \<rparr>"
  let ?C = "noConfig\<lparr> relativePath := Some ''./core/C'', superClass := Some ''B'',
              properties := Some [(''z'', plainProp ''3''), (''w'', plainProp ''3'')] \<rparr>"
  have C: "map_of shadowConfigs (replaceDots ''C'') = Some ?C" "hasSuperClass shadowConfigs ?C = Inr True"
      "superClass ?C = Some ''B''"
    by (simp_all add: shadowConfigs_def replaceDots_def hasSuperClass_def noConfig_def exampleDefaults_def)
  have B: "map_of shadowConfigs (replaceDots ''B'') = Some ?B" "hasSuperClass shadowConfigs ?B = Inr True"
      "superClass ?B = Some ''A''"
    by (simp_all add: shadowConfigs_def replaceDots_def hasSuperClass_def noConfig_def exampleDefaults_def)
  have A: "map_of shadowConfigs (replaceDots ''A'') = Some ?A" "hasSuperClass shadowConfigs ?A = Inr False"
    by (simp_all add: shadowConfigs_def replaceDots_def hasSuperClass_def noConfig_def exampleDefaults_def)
  have keys: "distinct (map fst (orEmpty (properties ?A)))" "distinct (map fst (orEmpty (properties ?B)))"
      "distinct (map fst (orEmpty (properties ?C)))"
    by (simp_all add: orEmpty_def noConfig_def)
  from allProperties_most_derived_wins [OF C B A keys, of 3]
  obtain r where r: "getClassConfig 3 shadowConfigs ''C'' = Inr r"
    and look: "\<And>p. map_of (allProperties r) p =
                  (case map_of (orEmpty (properties ?C)) p of
                     Some v \<Rightarrow> Some v
                   | None \<Rightarrow>
                       (case map_of (orEmpty (properties ?B)) p of
                          Some v \<Rightarrow> Some v
                        | None \<Rightarrow> map_of (orEmpty (properties ?A)) p))"
    by auto
  have "map_of (allProperties r) ''x'' = Some (plainProp ''1'')"
       "map_of (allProperties r) ''y'' = Some (plainProp ''2'')"
       "map_of (allProperties r) ''z'' = Some (plainProp ''3'')"
       "map_of (allProperties r) ''w'' = Some (plainProp ''3'')"
       "map_of (allProperties r) ''v'' = None"
    by (simp_all add: look orEmpty_def noConfig_def)
  with r show ?thesis by blast
qed

subsection \<open>The reference mapping\<close>

lemma foldE_preserve:
  assumes "foldE f xs a = Inr b" and "Q a"
    and "\<And>x a b. x \<in> set xs \<Longrightarrow> Q a \<Longrightarrow> f x a = Inr b \<Longrightarrow> Q b"
  shows "Q b"
  using assms
proof (induction xs arbitrary: a)
  case Nil
  then show ?case by simp
next
  case (Cons x xs)
  from Cons.prems(1) obtain c where c: "f x a = Inr c" "foldE f xs c = Inr b"
    by (auto split: sum.splits)
  have "Q c"
    by (rule Cons.prems(3) [OF _ Cons.prems(2) c(1)]) simp
  then show ?case
    by (rule Cons.IH [OF c(2)]) (rule Cons.prems(3), simp_all)
qed

lemma foldE_establish:
  assumes "foldE f xs a = Inr b" and "x \<in> set xs"
    and "\<And>a b. f x a = Inr b \<Longrightarrow> Q b"
    and "\<And>y a b. y \<in> set xs \<Longrightarrow> Q a \<Longrightarrow> f y a = Inr b \<Longrightarrow> Q b"
  shows "Q b"
  using assms
proof (induction xs arbitrary: a)
  case Nil
  then show ?case by simp
next
  case (Cons y ys)
  from Cons.prems(1) obtain c where c: "f y a = Inr c" "foldE f ys c = Inr b"
    by (auto split: sum.splits)
  show ?case
  proof (cases "x = y")
    case True
    with c(1) Cons.prems(3) have "Q c" by simp
    then show ?thesis
      by (rule foldE_preserve [OF c(2)]) (rule Cons.prems(4), simp_all)
  next
    case False
    with Cons.prems(2) have "x \<in> set ys" by simp
    then show ?thesis
      by (rule Cons.IH [OF c(2)]) (rule Cons.prems(3) Cons.prems(4); simp)+
  qed
qed

lemma js_inferDependency_targets:
  "js_inferDependency env st d dd p r =
     (case singleTarget p of
        Some t \<Rightarrow> js_addDependency env st d dd t r
      | None \<Rightarrow> foldE (js_addDependency env st d dd) (arrayTargets p) r)"
  by (cases "typeName p")
     (simp_all add: js_inferDependency_def singleTarget_def arrayTargets_def)

lemma js_addDependency_Inr:
  assumes "js_addDependency env st d dd k r = Inr r'"
  shows "\<exists>i. js_getRequireInfoFromClassDescriptor env st d dd (Some k) = Inr i \<and>
             map_of r' = (map_of r)(k \<mapsto> i)"
  using assms by (auto simp: js_addDependency_def update_conv' split: sum.splits)


lemma js_addDependency_same:
  assumes "js_addDependency env st d dd Y r = Inr r'"
  shows "jsEntryResolved env st d dd Y r'"
  using js_addDependency_Inr [OF assms] by (auto simp: jsEntryResolved_def)

lemma js_addDependency_keeps:
  assumes "js_addDependency env st d dd k r = Inr r'" and "jsEntryResolved env st d dd Y r"
  shows "jsEntryResolved env st d dd Y r'"
proof (cases "k = Y")
  case True
  with assms(1) show ?thesis by (simp add: js_addDependency_same)
next
  case False
  with js_addDependency_Inr [OF assms(1)] assms(2) show ?thesis
    by (auto simp: jsEntryResolved_def split: sum.splits)
qed

lemma js_addDependencies_keeps:
  assumes "foldE (js_addDependency env st d dd) ks r = Inr r'" and "jsEntryResolved env st d dd Y r"
  shows "jsEntryResolved env st d dd Y r'"
  by (rule foldE_preserve [OF assms(1), where Q = "jsEntryResolved env st d dd Y", OF assms(2)])
     (rule js_addDependency_keeps)

lemma js_addDependencies_member:
  assumes "foldE (js_addDependency env st d dd) ks r = Inr r'" and "Y \<in> set ks"
  shows "jsEntryResolved env st d dd Y r'"
  by (rule foldE_establish [OF assms(1,2), where Q = "jsEntryResolved env st d dd Y"])
     (erule js_addDependency_same, erule js_addDependency_keeps, assumption)

lemma js_inferDependency_keeps:
  assumes "js_inferDependency env st d dd p r = Inr r'" and "jsEntryResolved env st d dd Y r"
  shows "jsEntryResolved env st d dd Y r'"
  using assms
  by (cases "singleTarget p")
     (auto simp: js_inferDependency_targets intro: js_addDependencies_keeps js_addDependency_keeps)

lemma js_inferDependency_target:
  assumes "js_inferDependency env st d dd p r = Inr r'"
    and "singleTarget p = Some Y \<or> Y \<in> set (arrayTargets p)"
  shows "jsEntryResolved env st d dd Y r'"
proof (cases "singleTarget p")
  case None
  with assms show ?thesis
    by (auto simp: js_inferDependency_targets intro: js_addDependencies_member)
next
  case (Some t)
  then have "arrayTargets p = []"
    by (cases "typeName p") (auto simp: singleTarget_def arrayTargets_def split: if_splits)
  with Some assms show ?thesis
    by (auto simp: js_inferDependency_targets intro: js_addDependency_same)
qed

lemma js_processDependencies_entry:
  assumes "js_processDependencies env st d dd config = Inr deps"
    and "Y \<in> set (orEmpty (dependencies config)) \<or>
         (\<exists>p \<in> snd ` set (orEmpty (properties config)). singleTarget p = Some Y \<or> Y \<in> set (arrayTargets p))"
  shows "jsEntryResolved env st d dd Y deps"
proof -
  from assms(1) obtain explicit where
    e: "foldE (js_addDependency env st d dd) (orEmpty (dependencies config)) [] = Inr explicit"
    and i: "foldE (js_inferDependency env st d dd) (map snd (orEmpty (properties config))) explicit = Inr deps"
    by (auto simp: js_processDependencies_def split: sum.splits)
  from assms(2) show ?thesis
  proof
    assume "Y \<in> set (orEmpty (dependencies config))"
    with e have "jsEntryResolved env st d dd Y explicit"
      by (rule js_addDependencies_member)
    then show ?thesis
      by (rule foldE_preserve [OF i, where Q = "jsEntryResolved env st d dd Y"])
         (rule js_inferDependency_keeps)
  next
    assume "\<exists>p \<in> snd ` set (orEmpty (properties config)). singleTarget p = Some Y \<or> Y \<in> set (arrayTargets p)"
    then obtain p where p: "p \<in> set (map snd (orEmpty (properties config)))"
      "singleTarget p = Some Y \<or> Y \<in> set (arrayTargets p)" by auto
    show ?thesis
      by (rule foldE_establish [OF i p(1), where Q = "jsEntryResolved env st d dd Y"])
         (erule js_inferDependency_target [OF _ p(2)], erule js_inferDependency_keeps, assumption)
  qed
qed


lemma py_inferDependency_targets:
  "py_inferDependency env st d dd p r =
     (case singleTarget p of
        Some t \<Rightarrow>
          (case py_getRequireInfoFromClassDescriptor env st d dd (Some t) of
             Inl e \<Rightarrow> Inl e
           | Inr info \<Rightarrow> Inr (AList.update t (renameThree info) r))
      | None \<Rightarrow> foldE (py_addDependency env st d dd) (arrayTargets p) r)"
  by (cases "typeName p")
     (simp_all add: py_inferDependency_def singleTarget_def arrayTargets_def Let_def)

lemma py_addDependency_Inr:
  assumes "py_addDependency env st d dd k r = Inr r'"
  shows "\<exists>i. py_getRequireInfoFromClassDescriptor env st d dd (Some k) = Inr i \<and>
             map_of r' = (map_of r)(k \<mapsto> i)"
  using assms by (auto simp: py_addDependency_def update_conv' split: sum.splits)

lemma py_addDependency_same:
  assumes "py_addDependency env st d dd Y r = Inr r'"
  shows "pyEntryVerbatim env st d dd Y r'"
  using py_addDependency_Inr [OF assms] by (auto simp: pyEntryVerbatim_def)

lemma py_addDependency_other:
  assumes "py_addDependency env st d dd k r = Inr r'" and "k \<noteq> Y"
  shows "map_of r' Y = map_of r Y"
  using py_addDependency_Inr [OF assms(1)] assms(2) by auto

lemma py_addDependencies_other:
  assumes "foldE (py_addDependency env st d dd) ks r = Inr r'" and "Y \<notin> set ks"
  shows "map_of r' Y = map_of r Y"
proof (rule foldE_preserve [OF assms(1), where Q = "\<lambda>x. map_of x Y = map_of r Y"])
  show "map_of r Y = map_of r Y" ..
next
  fix k a b
  assume "k \<in> set ks" "map_of a Y = map_of r Y" "py_addDependency env st d dd k a = Inr b"
  with assms(2) show "map_of b Y = map_of r Y"
    using py_addDependency_other [of env st d dd k a b Y] by auto
qed

lemma pyEntry_cong:
  "map_of r' Y = map_of r Y \<Longrightarrow> pyEntryVerbatim env st d dd Y r' = pyEntryVerbatim env st d dd Y r"
  "map_of r' Y = map_of r Y \<Longrightarrow> pyEntryRenamed env st d dd Y r' = pyEntryRenamed env st d dd Y r"
  by (simp_all add: pyEntryVerbatim_def pyEntryRenamed_def split: sum.splits)

lemma py_addDependency_keeps:
  assumes "py_addDependency env st d dd k r = Inr r'" and "pyEntryVerbatim env st d dd Y r"
  shows "pyEntryVerbatim env st d dd Y r'"
proof (cases "k = Y")
  case True
  with assms(1) show ?thesis by (simp add: py_addDependency_same)
next
  case False
  from assms(2) show ?thesis
    by (simp only: pyEntry_cong [OF py_addDependency_other [OF assms(1) False]])
qed

lemma py_addDependencies_keeps:
  assumes "foldE (py_addDependency env st d dd) ks r = Inr r'" and "pyEntryVerbatim env st d dd Y r"
  shows "pyEntryVerbatim env st d dd Y r'"
  by (rule foldE_preserve [OF assms(1), where Q = "pyEntryVerbatim env st d dd Y", OF assms(2)])
     (rule py_addDependency_keeps)

lemma py_addDependencies_member:
  assumes "foldE (py_addDependency env st d dd) ks r = Inr r'" and "Y \<in> set ks"
  shows "pyEntryVerbatim env st d dd Y r'"
  by (rule foldE_establish [OF assms(1,2), where Q = "pyEntryVerbatim env st d dd Y"])
     (erule py_addDependency_same, erule py_addDependency_keeps, assumption)

text \<open>A property with a single type name writes the renamed entry of its key and leaves
  the other keys alone; a property with an array writes the entries of its keys as they are.\<close>

lemma py_inferDependency_single:
  assumes "py_inferDependency env st d dd p r = Inr r'" and "singleTarget p = Some t"
  shows "pyEntryRenamed env st d dd t r'" and "Y \<noteq> t \<Longrightarrow> map_of r' Y = map_of r Y"
proof -
  from assms obtain info where
    info: "py_getRequireInfoFromClassDescriptor env st d dd (Some t) = Inr info"
    and r': "r' = AList.update t (renameThree info) r"
    by (simp add: py_inferDependency_targets split: sum.splits)
  show "pyEntryRenamed env st d dd t r'"
    by (simp add: pyEntryRenamed_def info r' update_conv')
  show "Y \<noteq> t \<Longrightarrow> map_of r' Y = map_of r Y"
    by (simp add: r' update_conv')
qed

lemma py_inferDependency_array:
  assumes "py_inferDependency env st d dd p r = Inr r'" and "singleTarget p = None"
  shows "Y \<in> set (arrayTargets p) \<Longrightarrow> pyEntryVerbatim env st d dd Y r'"
    and "Y \<notin> set (arrayTargets p) \<Longrightarrow> map_of r' Y = map_of r Y"
    and "pyEntryVerbatim env st d dd Y r \<Longrightarrow> pyEntryVerbatim env st d dd Y r'"
proof -
  from assms have f: "foldE (py_addDependency env st d dd) (arrayTargets p) r = Inr r'"
    by (simp add: py_inferDependency_targets)
  show "Y \<in> set (arrayTargets p) \<Longrightarrow> pyEntryVerbatim env st d dd Y r'"
    by (rule py_addDependencies_member [OF f])
  show "Y \<notin> set (arrayTargets p) \<Longrightarrow> map_of r' Y = map_of r Y"
    by (rule py_addDependencies_other [OF f])
  show "pyEntryVerbatim env st d dd Y r \<Longrightarrow> pyEntryVerbatim env st d dd Y r'"
    by (rule py_addDependencies_keeps [OF f])
qed

lemma singleTarget_no_array: "singleTarget p = Some t \<Longrightarrow> arrayTargets p = []"
  by (cases "typeName p") (auto simp: singleTarget_def arrayTargets_def split: if_splits)

lemma py_inferDependency_keeps_renamed:
  assumes "py_inferDependency env st d dd p r = Inr r'" and "pyEntryRenamed env st d dd Y r"
    and "Y \<notin> set (arrayTargets p)"
  shows "pyEntryRenamed env st d dd Y r'"
proof (cases "singleTarget p")
  case None
  from assms(2) show ?thesis
      by (simp only: pyEntry_cong [OF py_inferDependency_array(2) [OF assms(1) None assms(3)]])
next
  case (Some t)
  show ?thesis
  proof (cases "Y = t")
    case True
    with py_inferDependency_single(1) [OF assms(1) Some] show ?thesis by simp
  next
    case False
    from assms(2) show ?thesis
      by (simp only: pyEntry_cong [OF py_inferDependency_single(2) [OF assms(1) Some False]])
  qed
qed

lemma py_inferDependency_keeps_verbatim:
  assumes "py_inferDependency env st d dd p r = Inr r'" and "pyEntryVerbatim env st d dd Y r"
    and "singleTarget p \<noteq> Some Y"
  shows "pyEntryVerbatim env st d dd Y r'"
proof (cases "singleTarget p")
  case None
  from py_inferDependency_array(3) [OF assms(1) None assms(2)] show ?thesis .
next
  case (Some t)
  with assms(3) have ne: "Y \<noteq> t" by auto
  from assms(2) show ?thesis
    by (simp only: pyEntry_cong [OF py_inferDependency_single(2) [OF assms(1) Some ne]])
qed

text \<open>Whatever wrote it last, the entry of a key is the reference information of the key,
  renamed or not.\<close>

lemma py_inferDependency_keeps_either:
  assumes "py_inferDependency env st d dd p r = Inr r'"
    and "pyEntryVerbatim env st d dd Y r \<or> pyEntryRenamed env st d dd Y r"
  shows "pyEntryVerbatim env st d dd Y r' \<or> pyEntryRenamed env st d dd Y r'"
proof (cases "singleTarget p")
  case None
  show ?thesis
  proof (cases "Y \<in> set (arrayTargets p)")
    case True
    from py_inferDependency_array(1) [OF assms(1) None True] show ?thesis ..
  next
    case False
    from assms(2) show ?thesis
      by (simp only: pyEntry_cong [OF py_inferDependency_array(2) [OF assms(1) None False]])
  qed
next
  case (Some t)
  show ?thesis
  proof (cases "Y = t")
    case True
    with py_inferDependency_single(1) [OF assms(1) Some] show ?thesis by simp
  next
    case False
    from assms(2) show ?thesis
      by (simp only: pyEntry_cong [OF py_inferDependency_single(2) [OF assms(1) Some False]])
  qed
qed

lemma py_inferDependency_target:
  assumes "py_inferDependency env st d dd p r = Inr r'"
    and "singleTarget p = Some Y \<or> Y \<in> set (arrayTargets p)"
  shows "pyEntryVerbatim env st d dd Y r' \<or> pyEntryRenamed env st d dd Y r'"
proof (cases "singleTarget p")
  case None
  with assms(2) have "Y \<in> set (arrayTargets p)" by simp
  from py_inferDependency_array(1) [OF assms(1) None this] show ?thesis ..
next
  case (Some t)
  with assms(2) singleTarget_no_array [OF Some] have "t = Y" by simp
  with py_inferDependency_single(1) [OF assms(1) Some] show ?thesis by simp
qed


lemma py_processDependencies_folds:
  assumes "py_processDependencies env st d dd config = Inr deps"
  obtains explicit where
    "foldE (py_addDependency env st d dd) (orEmpty (dependencies config)) [] = Inr explicit"
    "foldE (py_inferDependency env st d dd) (map snd (orEmpty (properties config))) explicit = Inr deps"
  using assms by (auto simp: py_processDependencies_def split: sum.splits)

lemma py_processDependencies_entry:
  assumes "py_processDependencies env st d dd config = Inr deps"
    and "Y \<in> set (orEmpty (dependencies config)) \<or>
         (\<exists>p \<in> snd ` set (orEmpty (properties config)). singleTarget p = Some Y \<or> Y \<in> set (arrayTargets p))"
  shows "pyEntryVerbatim env st d dd Y deps \<or> pyEntryRenamed env st d dd Y deps"
proof -
  from assms(1) obtain explicit where
    e: "foldE (py_addDependency env st d dd) (orEmpty (dependencies config)) [] = Inr explicit"
    and i: "foldE (py_inferDependency env st d dd) (map snd (orEmpty (properties config))) explicit = Inr deps"
    by (rule py_processDependencies_folds)
  let ?Q = "\<lambda>r. pyEntryVerbatim env st d dd Y r \<or> pyEntryRenamed env st d dd Y r"
  from assms(2) show ?thesis
  proof
    assume "Y \<in> set (orEmpty (dependencies config))"
    with e have "pyEntryVerbatim env st d dd Y explicit"
      by (rule py_addDependencies_member)
    then have "?Q explicit" ..
    then show ?thesis
      by (rule foldE_preserve [OF i, where Q = ?Q]) (rule py_inferDependency_keeps_either)
  next
    assume "\<exists>p \<in> snd ` set (orEmpty (properties config)). singleTarget p = Some Y \<or> Y \<in> set (arrayTargets p)"
    then obtain p where p: "p \<in> set (map snd (orEmpty (properties config)))"
      "singleTarget p = Some Y \<or> Y \<in> set (arrayTargets p)" by auto
    show ?thesis
      by (rule foldE_establish [OF i p(1), where Q = ?Q])
         (erule py_inferDependency_target [OF _ p(2)], erule py_inferDependency_keeps_either, assumption)
  qed
qed

lemma py_processDependencies_renamed:
  assumes "py_processDependencies env st d dd config = Inr deps"
    and "\<exists>p \<in> snd ` set (orEmpty (properties config)). singleTarget p = Some k"
    and "\<forall>p \<in> snd ` set (orEmpty (properties config)). k \<notin> set (arrayTargets p)"
  shows "pyEntryRenamed env st d dd k deps"
proof -
  from assms(1) obtain explicit where
    i: "foldE (py_inferDependency env st d dd) (map snd (orEmpty (properties config))) explicit = Inr deps"
    by (rule py_processDependencies_folds)
  from assms(2) obtain p where p: "p \<in> set (map snd (orEmpty (properties config)))"
    "singleTarget p = Some k" by auto
  show ?thesis
  proof (rule foldE_establish [OF i p(1), where Q = "pyEntryRenamed env st d dd k"])
    fix a b assume "py_inferDependency env st d dd p a = Inr b"
    then show "pyEntryRenamed env st d dd k b"
      by (rule py_inferDependency_single(1) [OF _ p(2)])
  next
    fix q a b
    assume q: "q \<in> set (map snd (orEmpty (properties config)))"
      and "pyEntryRenamed env st d dd k a" "py_inferDependency env st d dd q a = Inr b"
    moreover from q assms(3) have "k \<notin> set (arrayTargets q)" by auto
    ultimately show "pyEntryRenamed env st d dd k b"
      by (intro py_inferDependency_keeps_renamed [of env st d dd q a b k])
  qed
qed

lemma py_processDependencies_verbatim:
  assumes "py_processDependencies env st d dd config = Inr deps"
    and "k \<in> set (orEmpty (dependencies config)) \<or>
         (\<exists>p \<in> snd ` set (orEmpty (properties config)). k \<in> set (arrayTargets p))"
    and "\<forall>p \<in> snd ` set (orEmpty (properties config)). singleTarget p \<noteq> Some k"
  shows "pyEntryVerbatim env st d dd k deps"
proof -
  from assms(1) obtain explicit where
    e: "foldE (py_addDependency env st d dd) (orEmpty (dependencies config)) [] = Inr explicit"
    and i: "foldE (py_inferDependency env st d dd) (map snd (orEmpty (properties config))) explicit = Inr deps"
    by (rule py_processDependencies_folds)
  have keep: "pyEntryVerbatim env st d dd k b"
    if "q \<in> set (map snd (orEmpty (properties config)))" "pyEntryVerbatim env st d dd k a"
      "py_inferDependency env st d dd q a = Inr b" for q a b
  proof -
    from that(1) assms(3) have "singleTarget q \<noteq> Some k" by auto
    with that(2,3) show ?thesis
      by (intro py_inferDependency_keeps_verbatim [of env st d dd q a b k])
  qed
  from assms(2) show ?thesis
  proof
    assume "k \<in> set (orEmpty (dependencies config))"
    with e have "pyEntryVerbatim env st d dd k explicit"
      by (rule py_addDependencies_member)
    then show ?thesis
      by (rule foldE_preserve [OF i, where Q = "pyEntryVerbatim env st d dd k"]) (rule keep)
  next
    assume "\<exists>p \<in> snd ` set (orEmpty (properties config)). k \<in> set (arrayTargets p)"
    then obtain p where p: "p \<in> set (map snd (orEmpty (properties config)))"
      "k \<in> set (arrayTargets p)" by auto
    from p(1) assms(3) have none: "singleTarget p = None"
      using singleTarget_no_array [of p] p(2) by (cases "singleTarget p") auto
    show ?thesis
    proof (rule foldE_establish [OF i p(1), where Q = "pyEntryVerbatim env st d dd k"])
      fix a b assume "py_inferDependency env st d dd p a = Inr b"
      then show "pyEntryVerbatim env st d dd k b"
        by (rule py_inferDependency_array(1) [OF _ none p(2)])
    qed (rule keep)
  qed
qed

lemma js_construct_Inr:
  assumes "js_construct tpl env st d m X a = Inr w"
  shows "getClassConfig d st X = Inr (js_config w)"
    and "js_getRequireInfoFromClassDescriptor env st d (jsDestDir env m) (superClass (js_config w))
           = Inr (js_superClass (js_context w))"
    and "js_processDependencies env st d (jsDestDir env m) (js_config w)
           = Inr (js_dependencies (js_context w))"
    and "js_output w = jsWrapperTemplate tpl (js_context w)"
    and "js_className (js_context w) = X"
  using assms
  by (auto simp: js_construct_def jsDestDir_def Let_def split: sum.splits)

lemma py_construct_Inr:
  assumes "py_construct tpl env st d m X = Inr w"
  shows "getClassConfig d st X = Inr (py_config w)"
    and "py_processSuperClass env st d (pyDestDir env m) (py_config w)
           = Inr (py_superClass (py_context w))"
    and "py_processDependencies env st d (pyDestDir env m) (py_config w)
           = Inr (py_dependencies (py_context w))"
    and "py_output w = pyWrapperTemplate tpl (py_context w)"
    and "py_className (py_context w) = X"
  using assms
  by (auto simp: py_construct_def pyDestDir_def Let_def split: sum.splits)

lemma buildConfig_own:
  "properties cur = Some ps \<Longrightarrow> properties (buildConfig cur sc dflt) = Some ps"
  "dependencies cur = Some ds \<Longrightarrow> dependencies (buildConfig cur sc dflt) = Some ds"
  by (simp_all add: buildConfig_def applyDefaults_def orElse_def classConfig.extend_def
      split: option.splits)

lemma getClassConfig_own:
  assumes "getClassConfig d st X = Inr config" and "map_of st (replaceDots X) = Some cur"
  shows "properties cur = Some ps \<Longrightarrow> properties config = Some ps"
    and "dependencies cur = Some ds \<Longrightarrow> dependencies config = Some ds"
proof -
  from assms(1) obtain d' where d: "d = Suc d'" by (cases d) auto
  from assms have "\<exists>sc. config = buildConfig cur sc (map_of st ''_defaults'')"
    unfolding d by (auto simp: lookupClass_own split: sum.splits bool.splits)
  then show "properties cur = Some ps \<Longrightarrow> properties config = Some ps"
    and "dependencies cur = Some ds \<Longrightarrow> dependencies config = Some ds"
    by (auto simp: buildConfig_own)
qed

lemma classOfDescriptor_class:
  assumes "classOfDescriptor d st (Some Y) = Inr (name, rel)" and "map_of st Y \<noteq> None"
  shows "name = Y \<and> (\<exists>rc. getClassConfig d st Y = Inr rc \<and> relativePath rc = rel)"
  using assms lookupClass_present [of st Y]
  by (auto simp: classOfDescriptor_def split: sum.splits)

lemma js_getRequireInfo_class:
  assumes "js_getRequireInfoFromClassDescriptor env st d dd (Some Y) = Inr i" and "map_of st Y \<noteq> None"
  shows "\<exists>rc rel. getClassConfig d st Y = Inr rc \<and> relativePath rc = Some rel \<and>
           className i = Y \<and> refRelativePath i = rel \<and>
           absolutePath i = path_resolve (cwd env) [jsSrcDir env, rel] \<and>
           requirePath i = dotRelative (replaceBackslashes
             (path_relative (cwd env) dd (jsResolvedFile env (absolutePath i))))"
proof -
  from assms(1) obtain name rel where
    c: "classOfDescriptor d st (Some Y) = Inr (name, Some rel)"
    and i: "i = \<lparr> className = name, refRelativePath = rel,
                  absolutePath = path_resolve (cwd env) [jsSrcDir env, rel],
                  requirePath = dotRelative (replaceBackslashes
                    (path_relative (cwd env) dd (jsResolvedFile env (path_resolve (cwd env) [jsSrcDir env, rel])))),
                  modelName = name @ ''Model'' \<rparr>"
    by (auto simp: js_getRequireInfoFromClassDescriptor_def Let_def split: sum.splits option.splits)
  from classOfDescriptor_class [OF c assms(2)] show ?thesis
    by (auto simp: i)
qed

lemma py_getRequireInfo_class:
  assumes "py_getRequireInfoFromClassDescriptor env st d dd (Some Y) = Inr i" and "map_of st Y \<noteq> None"
  shows "\<exists>rc rel. getClassConfig d st Y = Inr rc \<and> relativePath rc = Some rel \<and>
           className i = Y \<and> refRelativePath i = rel \<and>
           absolutePath i = pyResolvedModule env (path_resolve (cwd env) [pySrcDir env, rel]) \<and>
           requirePath i = path_relative (cwd env) dd (absolutePath i)"
proof -
  from assms(1) obtain name rel where
    c: "classOfDescriptor d st (Some Y) = Inr (name, Some rel)"
    and i: "i = \<lparr> className = name, refRelativePath = rel,
                  absolutePath = pyResolvedModule env (path_resolve (cwd env) [pySrcDir env, rel]),
                  requirePath = path_relative (cwd env) dd
                     (pyResolvedModule env (path_resolve (cwd env) [pySrcDir env, rel])),
                  pyRelativePath = relativePathToPythonImportPath (path_relative (cwd env) dd
                     (pyResolvedModule env (path_resolve (cwd env) [pySrcDir env, rel]))) \<rparr>"
    by (auto simp: py_getRequireInfoFromClassDescriptor_def Let_def split: sum.splits option.splits)
  from classOfDescriptor_class [OF c assms(2)] show ?thesis
    by (auto simp: i)
qed

lemma renameThree_paths:
  "absolutePath (renameThree i) = absolutePath i" "requirePath (renameThree i) = requirePath i"
  "refRelativePath (renameThree i) = refRelativePath i" "pyRelativePath (renameThree i) = pyRelativePath i"
  by (simp_all add: renameThree_def)

text \<open>
  Where a reference points: let class \<open>X\<close> declare an own property that refers to \<open>Y\<close> (as
  its single type name, or in its array of type names), with \<open>Y\<close> a key of the table.
  Whenever the wrapper of \<open>X\<close> is built, its dependency mapping has an entry for \<open>Y\<close>,
  and the entry is located by the \<^verbatim>\<open>relativePath\<close> of \<open>Y\<close>'s configuration under the
  output root, not by the name of \<open>Y\<close>: the file tested is \<^verbatim>\<open>relativePath\<close> with
  \<^verbatim>\<open>.js\<close> (\<^verbatim>\<open>.py\<close>), the file pointed at otherwise is \<^verbatim>\<open>relativePath\<close> with
  \<^verbatim>\<open>.autogen.js\<close> (\<^verbatim>\<open>_autogen\<close>).
\<close>

lemma reference_entry_located_by_relativePath:
  assumes X: "map_of st (replaceDots X) = Some cur" "properties cur = Some ps"
    and p: "(pn, p) \<in> set ps" "singleTarget p = Some Y \<or> Y \<in> set (arrayTargets p)"
    and Y: "map_of st Y \<noteq> None"
  shows "(js_construct tpl env st d m X a = Inr jw \<longrightarrow>
           (\<exists>info rc rel.
              map_of (js_dependencies (js_context jw)) Y = Some info \<and>
              getClassConfig d st Y = Inr rc \<and> relativePath rc = Some rel \<and>
              className info = Y \<and>
              absolutePath info = path_resolve (cwd env) [jsSrcDir env, rel] \<and>
              requirePath info = dotRelative (replaceBackslashes
                (path_relative (cwd env) (jsDestDir env m)
                   (if existsSync env (absolutePath info @ ''.js'')
                    then absolutePath info @ ''.js''
                    else absolutePath info @ ''.autogen.js''))))) \<and>
         (py_construct tpl env st d m X = Inr pw \<longrightarrow>
           (\<exists>info rc rel.
              map_of (py_dependencies (py_context pw)) Y = Some info \<and>
              getClassConfig d st Y = Inr rc \<and> relativePath rc = Some rel \<and>
              absolutePath info =
                (if existsSync env (path_resolve (cwd env) [pySrcDir env, rel] @ ''.py'')
                 then path_resolve (cwd env) [pySrcDir env, rel]
                 else path_resolve (cwd env) [pySrcDir env, rel] @ ''_autogen'') \<and>
              requirePath info = path_relative (cwd env) (pyDestDir env m) (absolutePath info)))"
proof (intro conjI impI)
  assume jw: "js_construct tpl env st d m X a = Inr jw"
  from getClassConfig_own(1) [OF js_construct_Inr(1) [OF jw] X(1) X(2)]
  have own: "properties (js_config jw) = Some ps" .
  with p have "\<exists>q \<in> snd ` set (orEmpty (properties (js_config jw))).
                 singleTarget q = Some Y \<or> Y \<in> set (arrayTargets q)"
    by (force simp: orEmpty_def)
  then have "jsEntryResolved env st d (jsDestDir env m) Y (js_dependencies (js_context jw))"
    by (intro js_processDependencies_entry [OF js_construct_Inr(3) [OF jw]] disjI2)
  then obtain info where
    info: "js_getRequireInfoFromClassDescriptor env st d (jsDestDir env m) (Some Y) = Inr info"
      "map_of (js_dependencies (js_context jw)) Y = Some info"
    by (auto simp: jsEntryResolved_def split: sum.splits)
  from js_getRequireInfo_class [OF info(1) Y] info(2)
  show "\<exists>info rc rel.
              map_of (js_dependencies (js_context jw)) Y = Some info \<and>
              getClassConfig d st Y = Inr rc \<and> relativePath rc = Some rel \<and>
              className info = Y \<and>
              absolutePath info = path_resolve (cwd env) [jsSrcDir env, rel] \<and>
              requirePath info = dotRelative (replaceBackslashes
                (path_relative (cwd env) (jsDestDir env m)
                   (if existsSync env (absolutePath info @ ''.js'')
                    then absolutePath info @ ''.js''
                    else absolutePath info @ ''.autogen.js'')))"
    unfolding jsResolvedFile_def by blast
next
  assume pw: "py_construct tpl env st d m X = Inr pw"
  from getClassConfig_own(1) [OF py_construct_Inr(1) [OF pw] X(1) X(2)]
  have own: "properties (py_config pw) = Some ps" .
  with p have "\<exists>q \<in> snd ` set (orEmpty (properties (py_config pw))).
                 singleTarget q = Some Y \<or> Y \<in> set (arrayTargets q)"
    by (force simp: orEmpty_def)
  then have "pyEntryVerbatim env st d (pyDestDir env m) Y (py_dependencies (py_context pw)) \<or>
             pyEntryRenamed env st d (pyDestDir env m) Y (py_dependencies (py_context pw))"
    by (intro py_processDependencies_entry [OF py_construct_Inr(3) [OF pw]] disjI2)
  then obtain i info where
    i: "py_getRequireInfoFromClassDescriptor env st d (pyDestDir env m) (Some Y) = Inr i"
    and info: "map_of (py_dependencies (py_context pw)) Y = Some info" "info = i \<or> info = renameThree i"
    by (auto simp: pyEntryVerbatim_def pyEntryRenamed_def split: sum.splits)
  from info(2) have same: "absolutePath info = absolutePath i" "requirePath info = requirePath i"
    by (auto simp: renameThree_paths)
  from py_getRequireInfo_class [OF i Y] obtain rc rel where
    rc: "getClassConfig d st Y = Inr rc" "relativePath rc = Some rel"
      "absolutePath i = pyResolvedModule env (path_resolve (cwd env) [pySrcDir env, rel])"
      "requirePath i = path_relative (cwd env) (pyDestDir env m) (absolutePath i)"
    by blast
  have "absolutePath info =
                (if existsSync env (path_resolve (cwd env) [pySrcDir env, rel] @ ''.py'')
                 then path_resolve (cwd env) [pySrcDir env, rel]
                 else path_resolve (cwd env) [pySrcDir env, rel] @ ''_autogen'')"
    by (simp add: same rc(3) pyResolvedModule_def AUTOGEN_EXT_def)
  moreover have "requirePath info = path_relative (cwd env) (pyDestDir env m) (absolutePath info)"
    by (simp add: same rc(4))
  ultimately show "\<exists>info rc rel.
              map_of (py_dependencies (py_context pw)) Y = Some info \<and>
              getClassConfig d st Y = Inr rc \<and> relativePath rc = Some rel \<and>
              absolutePath info =
                (if existsSync env (path_resolve (cwd env) [pySrcDir env, rel] @ ''.py'')
                 then path_resolve (cwd env) [pySrcDir env, rel]
                 else path_resolve (cwd env) [pySrcDir env, rel] @ ''_autogen'') \<and>
              requirePath info = path_relative (cwd env) (pyDestDir env m) (absolutePath info)"
    using info(1) rc(1,2) by blast
qed

text \<open>
  Claim C4. The claim fails for a class that shares its source file with another one. The
  generator names the artifact of such a class after the class
  (\<^verbatim>\<open>className + '.' + AUTOGEN_EXT + '.js'\<close> in the constructor of
  \<^verbatim>\<open>JavascriptWrapper\<close>, \<^verbatim>\<open>className + '_' + AUTOGEN_EXT + '.py'\<close> in that of
  \<^verbatim>\<open>PythonWrapper\<close>), while \<^verbatim>\<open>getRequireInfoFromClassDescriptor\<close> locates a
  referenced class by its \<^verbatim>\<open>relativePath\<close>. In the table \<open>sharedUnitConfigs\<close> the run over
  \<^verbatim>\<open>shapes/Ring.js\<close> writes \<open>RingOutline\<close> to \<^verbatim>\<open>shapes/RingOutline.autogen.js\<close> and
  \<^verbatim>\<open>shapes/RingOutline_autogen.py\<close>, but the entry for \<open>RingOutline\<close> in the mapping of
  \<open>User\<close> points at \<^verbatim>\<open>shapes/Ring.autogen.js\<close> and at the module
  \<^verbatim>\<open>shapes/Ring_autogen\<close>, the artifact of \<open>Ring\<close>. With hand-written files
  \<^verbatim>\<open>shapes/RingOutline.js\<close> and \<^verbatim>\<open>shapes/RingOutline.py\<close> in place, which the Python
  wrapper of \<open>RingOutline\<close> itself finds as its override, the entry still points at the
  generated files of \<open>Ring\<close>.
\<close>

theorem reference_to_shared_unit_class_misses_its_artifact:
  "fst (createJavascriptWrapper plainTemplates exampleEnv sharedUnitConfigs 4 ''shapes/Ring.js'' None) =
     [ConsoleLog ''extra defines found: RingOutline'',
      OutputFile ''/repo/js/src/shapes/RingOutline.autogen.js'' ''// RingOutline'',
      OutputFile ''/repo/js/src/shapes/Ring.autogen.js'' ''// Ring''] \<and>
   map_sum id (\<lambda>w. map_option (\<lambda>i. (className i, absolutePath i, requirePath i))
                       (map_of (js_dependencies (js_context w)) ''RingOutline''))
     (snd (JavascriptWrapper plainTemplates exampleEnv sharedUnitConfigs 4 ''core/User.js'' None)) =
     Inr (Some (''RingOutline'', ''/repo/js/src/shapes/Ring'', ''../shapes/Ring.autogen.js'')) \<and>
   fst (createPythonWrapper plainTemplates exampleEnv sharedUnitConfigs 4 ''shapes/Ring.js'' None) =
     [ConsoleLog ''extra defines found: RingOutline'',
      OutputFile ''/repo/pythreejs/shapes/RingOutline_autogen.py'' ''# RingOutline'',
      OutputFile ''/repo/pythreejs/shapes/Ring_autogen.py'' ''# Ring''] \<and>
   map_sum id (\<lambda>w. map_option (\<lambda>i. (className i, absolutePath i, pyRelativePath i))
                       (map_of (py_dependencies (py_context w)) ''RingOutline''))
     (snd (PythonWrapper plainTemplates exampleEnv sharedUnitConfigs 4 ''core/User.js'' None)) =
     Inr (Some (''RingOutline'', ''/repo/pythreejs/shapes/Ring_autogen'', ''..shapes.Ring_autogen'')) \<and>
   map_sum id (\<lambda>w. (py_hasOverride (py_context w), pyAutoDestPath w))
     (snd (PythonWrapper plainTemplates outlineEnv sharedUnitConfigs 4 ''shapes/Ring.js''
             (Some ''RingOutline''))) =
     Inr (True, ''/repo/pythreejs/shapes/RingOutline_autogen.py'') \<and>
   map_sum id (\<lambda>w. map_option (\<lambda>i. (className i, absolutePath i, pyRelativePath i))
                       (map_of (py_dependencies (py_context w)) ''RingOutline''))
     (snd (PythonWrapper plainTemplates outlineEnv sharedUnitConfigs 4 ''core/User.js'' None)) =
     Inr (Some (''RingOutline'', ''/repo/pythreejs/shapes/Ring_autogen'', ''..shapes.Ring_autogen'')) \<and>
   map_sum id (\<lambda>w. map_option (\<lambda>i. (className i, absolutePath i, requirePath i))
                       (map_of (js_dependencies (js_context w)) ''RingOutline''))
     (snd (JavascriptWrapper plainTemplates outlineEnv sharedUnitConfigs 4 ''core/User.js'' None)) =
     Inr (Some (''RingOutline'', ''/repo/js/src/shapes/Ring'', ''../shapes/Ring.autogen.js''))"
proof (intro conjI)
  show "fst (createJavascriptWrapper plainTemplates exampleEnv sharedUnitConfigs 4 ''shapes/Ring.js'' None) =
     [ConsoleLog ''extra defines found: RingOutline'',
      OutputFile ''/repo/js/src/shapes/RingOutline.autogen.js'' ''// RingOutline'',
      OutputFile ''/repo/js/src/shapes/Ring.autogen.js'' ''// Ring'']"
    by code_simp
  show "map_sum id (\<lambda>w. map_option (\<lambda>i. (className i, absolutePath i, requirePath i))
                       (map_of (js_dependencies (js_context w)) ''RingOutline''))
     (snd (JavascriptWrapper plainTemplates exampleEnv sharedUnitConfigs 4 ''core/User.js'' None)) =
     Inr (Some (''RingOutline'', ''/repo/js/src/shapes/Ring'', ''../shapes/Ring.autogen.js''))"
    by code_simp
  show "fst (createPythonWrapper plainTemplates exampleEnv sharedUnitConfigs 4 ''shapes/Ring.js'' None) =
     [ConsoleLog ''extra defines found: RingOutline'',
      OutputFile ''/repo/pythreejs/shapes/RingOutline_autogen.py'' ''# RingOutline'',
      OutputFile ''/repo/pythreejs/shapes/Ring_autogen.py'' ''# Ring'']"
    by code_simp
  show "map_sum id (\<lambda>w. map_option (\<lambda>i. (className i, absolutePath i, pyRelativePath i))
                       (map_of (py_dependencies (py_context w)) ''RingOutline''))
     (snd (PythonWrapper plainTemplates exampleEnv sharedUnitConfigs 4 ''core/User.js'' None)) =
     Inr (Some (''RingOutline'', ''/repo/pythreejs/shapes/Ring_autogen'', ''..shapes.Ring_autogen''))"
    by code_simp
  show "map_sum id (\<lambda>w. (py_hasOverride (py_context w), pyAutoDestPath w))
     (snd (PythonWrapper plainTemplates outlineEnv sharedUnitConfigs 4 ''shapes/Ring.js''
             (Some ''RingOutline''))) =
     Inr (True, ''/repo/pythreejs/shapes/RingOutline_autogen.py'')"
    by code_simp
  show "map_sum id (\<lambda>w. map_option (\<lambda>i. (className i, absolutePath i, pyRelativePath i))
                       (map_of (py_dependencies (py_context w)) ''RingOutline''))
     (snd (PythonWrapper plainTemplates outlineEnv sharedUnitConfigs 4 ''core/User.js'' None)) =
     Inr (Some (''RingOutline'', ''/repo/pythreejs/shapes/Ring_autogen'', ''..shapes.Ring_autogen''))"
    by code_simp
  show "map_sum id (\<lambda>w. map_option (\<lambda>i. (className i, absolutePath i, requirePath i))
                       (map_of (js_dependencies (js_context w)) ''RingOutline''))
     (snd (JavascriptWrapper plainTemplates outlineEnv sharedUnitConfigs 4 ''core/User.js'' None)) =
     Inr (Some (''RingOutline'', ''/repo/js/src/shapes/Ring'', ''../shapes/Ring.autogen.js''))"
    by code_simp
qed

lemma classOfDescriptor_path:
  assumes "lookupClass st D = None"
  shows "classOfDescriptor d st (Some D) = Inr (path_basename D ''.js'', Some D)"
  using assms by (simp add: classOfDescriptor_def)

lemma js_getRequireInfo_path:
  assumes "js_getRequireInfoFromClassDescriptor env st d dd (Some D) = Inr i" and "lookupClass st D = None"
  shows "className i = path_basename D ''.js''" and "refRelativePath i = D"
    and "absolutePath i = path_resolve (cwd env) [jsSrcDir env, D]"
proof -
  from assms have "i = \<lparr> className = path_basename D ''.js'', refRelativePath = D,
        absolutePath = path_resolve (cwd env) [jsSrcDir env, D],
        requirePath = dotRelative (replaceBackslashes
          (path_relative (cwd env) dd (jsResolvedFile env (path_resolve (cwd env) [jsSrcDir env, D])))),
        modelName = path_basename D ''.js'' @ ''Model'' \<rparr>"
    by (simp add: js_getRequireInfoFromClassDescriptor_def classOfDescriptor_path Let_def)
  then show "className i = path_basename D ''.js''" and "refRelativePath i = D"
    and "absolutePath i = path_resolve (cwd env) [jsSrcDir env, D]"
    by simp_all
qed

lemma py_getRequireInfo_path:
  assumes "py_getRequireInfoFromClassDescriptor env st d dd (Some D) = Inr i" and "lookupClass st D = None"
  shows "className i = path_basename D ''.js''" and "refRelativePath i = D"
    and "absolutePath i = pyResolvedModule env (path_resolve (cwd env) [pySrcDir env, D])"
proof -
  from assms have "i = \<lparr> className = path_basename D ''.js'', refRelativePath = D,
        absolutePath = pyResolvedModule env (path_resolve (cwd env) [pySrcDir env, D]),
        requirePath = path_relative (cwd env) dd
          (pyResolvedModule env (path_resolve (cwd env) [pySrcDir env, D])),
        pyRelativePath = relativePathToPythonImportPath (path_relative (cwd env) dd
          (pyResolvedModule env (path_resolve (cwd env) [pySrcDir env, D]))) \<rparr>"
    by (simp add: py_getRequireInfoFromClassDescriptor_def classOfDescriptor_path Let_def)
  then show "className i = path_basename D ''.js''" and "refRelativePath i = D"
    and "absolutePath i = pyResolvedModule env (path_resolve (cwd env) [pySrcDir env, D])"
    by simp_all
qed

lemma basename_sentinel: "path_basename ''./_base/Three'' ''.js'' = ''Three''"
  by code_simp

lemma lookupClass_sentinel:
  "lookupClass st ''./_base/Three'' = None \<longleftrightarrow> map_of st ''./_base/Three'' = None"
  by (simp add: lookupClass_def objectPrototypeNames_def split: option.splits)

lemma singleTarget_unnamed:
  "referencesThreeType p \<Longrightarrow> typeName p = TNString [] \<Longrightarrow> singleTarget p = Some ''./_base/Three''"
  by (simp add: singleTarget_def)

lemma single_target_entry:
  assumes X: "map_of st (replaceDots X) = Some cur" "properties cur = Some ps"
    and p: "(pn, p) \<in> set ps" "singleTarget p = Some S"
  shows "(js_construct tpl env st d m X a = Inr jw \<longrightarrow>
           (\<exists>info.
              map_of (js_dependencies (js_context jw)) S = Some info \<and>
              js_getRequireInfoFromClassDescriptor env st d (jsDestDir env m) (Some S)
                = Inr info \<and>
              (lookupClass st S = None \<longrightarrow>
                 className info = path_basename S ''.js'' \<and> refRelativePath info = S \<and>
                 absolutePath info = path_resolve (cwd env) [jsSrcDir env, S]))) \<and>
         (py_construct tpl env st d m X = Inr pw \<longrightarrow>
           (\<exists>info i.
              map_of (py_dependencies (py_context pw)) S = Some info \<and>
              py_getRequireInfoFromClassDescriptor env st d (pyDestDir env m) (Some S)
                = Inr i \<and>
              (info = i \<or> info = renameThree i) \<and>
              (lookupClass st S = None \<longrightarrow>
                 refRelativePath info = S \<and>
                 absolutePath info =
                   pyResolvedModule env (path_resolve (cwd env) [pySrcDir env, S]))))"
proof (intro conjI impI)
  assume jw: "js_construct tpl env st d m X a = Inr jw"
  from getClassConfig_own(1) [OF js_construct_Inr(1) [OF jw] X(1) X(2)]
  have own: "properties (js_config jw) = Some ps" .
  with p(1) have "p \<in> snd ` set (orEmpty (properties (js_config jw)))"
    by (force simp: orEmpty_def)
  with p(2)
  have "\<exists>q \<in> snd ` set (orEmpty (properties (js_config jw))).
                 singleTarget q = Some S \<or> S \<in> set (arrayTargets q)"
    by blast
  then have "jsEntryResolved env st d (jsDestDir env m) S (js_dependencies (js_context jw))"
    by (intro js_processDependencies_entry [OF js_construct_Inr(3) [OF jw]] disjI2)
  then obtain info where
    info: "js_getRequireInfoFromClassDescriptor env st d (jsDestDir env m) (Some S) = Inr info"
      "map_of (js_dependencies (js_context jw)) S = Some info"
    by (auto simp: jsEntryResolved_def split: sum.splits)
  have "lookupClass st S = None \<longrightarrow>
                 className info = path_basename S ''.js'' \<and> refRelativePath info = S \<and>
                 absolutePath info = path_resolve (cwd env) [jsSrcDir env, S]"
  proof
    assume absent: "lookupClass st S = None"
    from js_getRequireInfo_path [OF info(1) absent]
    show "className info = path_basename S ''.js'' \<and> refRelativePath info = S \<and>
          absolutePath info = path_resolve (cwd env) [jsSrcDir env, S]"
      by (simp only: simp_thms)
  qed
  then show "\<exists>info.
              map_of (js_dependencies (js_context jw)) S = Some info \<and>
              js_getRequireInfoFromClassDescriptor env st d (jsDestDir env m) (Some S)
                = Inr info \<and>
              (lookupClass st S = None \<longrightarrow>
                 className info = path_basename S ''.js'' \<and> refRelativePath info = S \<and>
                 absolutePath info = path_resolve (cwd env) [jsSrcDir env, S])"
    using info by (intro exI [of _ info] conjI) assumption+
next
  assume pw: "py_construct tpl env st d m X = Inr pw"
  from getClassConfig_own(1) [OF py_construct_Inr(1) [OF pw] X(1) X(2)]
  have own: "properties (py_config pw) = Some ps" .
  with p(1) have "p \<in> snd ` set (orEmpty (properties (py_config pw)))"
    by (force simp: orEmpty_def)
  with p(2)
  have "\<exists>q \<in> snd ` set (orEmpty (properties (py_config pw))).
                 singleTarget q = Some S \<or> S \<in> set (arrayTargets q)"
    by blast
  then have "pyEntryVerbatim env st d (pyDestDir env m) S (py_dependencies (py_context pw)) \<or>
             pyEntryRenamed env st d (pyDestDir env m) S (py_dependencies (py_context pw))"
    by (intro py_processDependencies_entry [OF py_construct_Inr(3) [OF pw]] disjI2)
  then obtain i info where
    i: "py_getRequireInfoFromClassDescriptor env st d (pyDestDir env m) (Some S) = Inr i"
    and info: "map_of (py_dependencies (py_context pw)) S = Some info"
      "info = i \<or> info = renameThree i"
    by (auto simp: pyEntryVerbatim_def pyEntryRenamed_def split: sum.splits)
  from info(2) have same: "absolutePath info = absolutePath i" "refRelativePath info = refRelativePath i"
    by (auto simp: renameThree_paths)
  have "lookupClass st S = None \<longrightarrow>
                 refRelativePath info = S \<and>
                 absolutePath info =
                   pyResolvedModule env (path_resolve (cwd env) [pySrcDir env, S])"
  proof
    assume absent: "lookupClass st S = None"
    from py_getRequireInfo_path(2,3) [OF i absent]
    show "refRelativePath info = S \<and>
          absolutePath info =
            pyResolvedModule env (path_resolve (cwd env) [pySrcDir env, S])"
      by (simp only: same simp_thms)
  qed
  then show "\<exists>info i.
              map_of (py_dependencies (py_context pw)) S = Some info \<and>
              py_getRequireInfoFromClassDescriptor env st d (pyDestDir env m) (Some S)
                = Inr i \<and>
              (info = i \<or> info = renameThree i) \<and>
              (lookupClass st S = None \<longrightarrow>
                 refRelativePath info = S \<and>
                 absolutePath info =
                   pyResolvedModule env (path_resolve (cwd env) [pySrcDir env, S]))"
    using i info by (intro exI [of _ info] exI [of _ i] conjI) assumption+
qed

text \<open>
  Claim C9. Let a class declare an own property of a class-referencing kind whose type name
  is the empty string (an unnamed reference; it is not \<^verbatim>\<open>'this'\<close>). Whenever the wrapper
  of the class is built, in either language, its dependency mapping has an entry under the
  key \<^verbatim>\<open>./_base/Three\<close>, and the entry is what the reference resolver returns for that
  descriptor (in Python possibly with the class name renamed). As long as
  \<^verbatim>\<open>./_base/Three\<close> is not itself a key of the table, the entry's relative path is
  \<^verbatim>\<open>./_base/Three\<close>, its location is that path under the output root, and its class
  name in JavaScript is \<open>Three\<close>.
\<close>

theorem unnamed_reference_falls_back_to_base:
  assumes X: "map_of st (replaceDots X) = Some cur" "properties cur = Some ps"
    and p: "(pn, p) \<in> set ps" "referencesThreeType p" "typeName p = TNString []"
  shows "(js_construct tpl env st d m X a = Inr jw \<longrightarrow>
           (\<exists>info.
              map_of (js_dependencies (js_context jw)) ''./_base/Three'' = Some info \<and>
              js_getRequireInfoFromClassDescriptor env st d (jsDestDir env m) (Some ''./_base/Three'')
                = Inr info \<and>
              (map_of st ''./_base/Three'' = None \<longrightarrow>
                 className info = ''Three'' \<and> refRelativePath info = ''./_base/Three'' \<and>
                 absolutePath info = path_resolve (cwd env) [jsSrcDir env, ''./_base/Three'']))) \<and>
         (py_construct tpl env st d m X = Inr pw \<longrightarrow>
           (\<exists>info i.
              map_of (py_dependencies (py_context pw)) ''./_base/Three'' = Some info \<and>
              py_getRequireInfoFromClassDescriptor env st d (pyDestDir env m) (Some ''./_base/Three'')
                = Inr i \<and>
              (info = i \<or> info = renameThree i) \<and>
              (map_of st ''./_base/Three'' = None \<longrightarrow>
                 refRelativePath info = ''./_base/Three'' \<and>
                 absolutePath info =
                   pyResolvedModule env (path_resolve (cwd env) [pySrcDir env, ''./_base/Three'']))))"
  using single_target_entry [OF X p(1) singleTarget_unnamed [OF p(2,3)], of tpl env d m a jw pw]
  by (simp only: basename_sentinel lookupClass_sentinel)

theorem unnamed_reference_falls_back_to_base_witness:
  "(\<exists>jw info. js_construct plainTemplates exampleEnv meshConfigs 3 ''objects/Mesh.js'' ''Mesh''
                  ''/repo/js/src/objects/Mesh.autogen.js'' = Inr jw \<and>
        map_of (js_dependencies (js_context jw)) ''./_base/Three'' = Some info \<and>
        className info = ''Three'' \<and> refRelativePath info = ''./_base/Three'' \<and>
        absolutePath info = ''/repo/js/src/_base/Three'') \<and>
   (\<exists>pw info. py_construct plainTemplates exampleEnv meshConfigs 3 ''objects/Mesh.js'' ''Mesh'' = Inr pw \<and>
        map_of (py_dependencies (py_context pw)) ''./_base/Three'' = Some info \<and>
        refRelativePath info = ''./_base/Three'' \<and>
        absolutePath info = ''/repo/pythreejs/_base/Three_autogen'')"
proof -
  let ?ps = "[(''geometry'', threeProp ThreeType (TNString ''Shape'')),
              (''parts'', threeProp ThreeTypeArray (TNArray [''Base'', ''./extras/Three.js''])),
              (''target'', threeProp ThreeType (TNString [])),
              (''owner'', threeProp ThreeType (TNString ''this''))]"
  let ?cur = "noConfig\<lparr> relativePath := Some ''./objects/Mesh'', superClass := Some ''Base'',
                dependencies := Some [''./lib/Three''], properties := Some ?ps \<rparr>"
  have X: "map_of meshConfigs (replaceDots ''Mesh'') = Some ?cur" "properties ?cur = Some ?ps"
    by (simp_all add: meshConfigs_def replaceDots_def)
  have p: "(''target'', threeProp ThreeType (TNString [])) \<in> set ?ps"
    "referencesThreeType (threeProp ThreeType (TNString []))"
    "typeName (threeProp ThreeType (TNString [])) = TNString []"
    by (simp_all add: threeProp_def referencesThreeType_def)
  have absent: "map_of meshConfigs ''./_base/Three'' = None"
    by (simp add: meshConfigs_def)
  have "\<not> isl (js_construct plainTemplates exampleEnv meshConfigs 3 ''objects/Mesh.js'' ''Mesh''
                  ''/repo/js/src/objects/Mesh.autogen.js'')"
    by code_simp
  then obtain jw where jw: "js_construct plainTemplates exampleEnv meshConfigs 3 ''objects/Mesh.js'' ''Mesh''
                  ''/repo/js/src/objects/Mesh.autogen.js'' = Inr jw"
    by (metis sum.collapse(2))
  have r1: "path_resolve (cwd exampleEnv) [jsSrcDir exampleEnv, ''./_base/Three''] = ''/repo/js/src/_base/Three''"
    by code_simp
  from unnamed_reference_falls_back_to_base [OF X p, THEN conjunct1, THEN mp, OF jw]
  obtain info where info: "map_of (js_dependencies (js_context jw)) ''./_base/Three'' = Some info"
    "map_of meshConfigs ''./_base/Three'' = None \<longrightarrow>
       className info = ''Three'' \<and> refRelativePath info = ''./_base/Three'' \<and>
       absolutePath info = path_resolve (cwd exampleEnv) [jsSrcDir exampleEnv, ''./_base/Three'']"
    by (elim exE conjE) (rule that, assumption+)
  from info(2) absent have "className info = ''Three''" "refRelativePath info = ''./_base/Three''"
    "absolutePath info = ''/repo/js/src/_base/Three''"
    by (simp_all only: r1 simp_thms)
  with jw info(1)
  have js: "\<exists>jw info. js_construct plainTemplates exampleEnv meshConfigs 3 ''objects/Mesh.js'' ''Mesh''
                  ''/repo/js/src/objects/Mesh.autogen.js'' = Inr jw \<and>
        map_of (js_dependencies (js_context jw)) ''./_base/Three'' = Some info \<and>
        className info = ''Three'' \<and> refRelativePath info = ''./_base/Three'' \<and>
        absolutePath info = ''/repo/js/src/_base/Three''"
    by (intro exI [of _ jw] exI [of _ info] conjI) assumption+
  have "\<not> isl (py_construct plainTemplates exampleEnv meshConfigs 3 ''objects/Mesh.js'' ''Mesh'')"
    by code_simp
  then obtain pw where pw: "py_construct plainTemplates exampleEnv meshConfigs 3 ''objects/Mesh.js'' ''Mesh'' = Inr pw"
    by (metis sum.collapse(2))
  have r2: "pyResolvedModule exampleEnv (path_resolve (cwd exampleEnv) [pySrcDir exampleEnv, ''./_base/Three''])
              = ''/repo/pythreejs/_base/Three_autogen''"
    by code_simp
  from unnamed_reference_falls_back_to_base [OF X p, THEN conjunct2, THEN mp, OF pw]
  obtain pinfo where pinfo: "map_of (py_dependencies (py_context pw)) ''./_base/Three'' = Some pinfo"
    "map_of meshConfigs ''./_base/Three'' = None \<longrightarrow>
       refRelativePath pinfo = ''./_base/Three'' \<and>
       absolutePath pinfo =
         pyResolvedModule exampleEnv (path_resolve (cwd exampleEnv) [pySrcDir exampleEnv, ''./_base/Three''])"
    by (elim exE conjE) (rule that, assumption+)
  from pinfo(2) absent have "refRelativePath pinfo = ''./_base/Three''"
    "absolutePath pinfo = ''/repo/pythreejs/_base/Three_autogen''"
    by (simp_all only: r2 simp_thms)
  with pw pinfo(1)
  have "\<exists>pw info. py_construct plainTemplates exampleEnv meshConfigs 3 ''objects/Mesh.js'' ''Mesh'' = Inr pw \<and>
        map_of (py_dependencies (py_context pw)) ''./_base/Three'' = Some info \<and>
        refRelativePath info = ''./_base/Three'' \<and>
        absolutePath info = ''/repo/pythreejs/_base/Three_autogen''"
    by (intro exI [of _ pw] exI [of _ pinfo] conjI) assumption+
  with js show ?thesis by (rule conjI)
qed

subsection \<open>The renaming of \<open>Three\<close> in the Python wrapper\<close>

lemma pyEntryRenamed_D:
  assumes "pyEntryRenamed env st d dd k deps"
  shows "\<exists>info. py_getRequireInfoFromClassDescriptor env st d dd (Some k) = Inr info \<and>
           map_of deps k =
             Some (if className info = ''Three'' then info\<lparr> className := ''ThreeWidget'' \<rparr> else info)"
proof (cases "py_getRequireInfoFromClassDescriptor env st d dd (Some k)")
  case (Inl e)
  with assms show ?thesis by (simp add: pyEntryRenamed_def)
next
  case (Inr info)
  with assms have "map_of deps k = Some (renameThree info)"
    by (simp add: pyEntryRenamed_def)
  then have "map_of deps k =
             Some (if className info = ''Three'' then info\<lparr> className := ''ThreeWidget'' \<rparr> else info)"
    by (simp only: renameThree_def)
  with Inr show ?thesis by (intro exI [of _ info] conjI)
qed

lemma pyEntryVerbatim_D:
  assumes "pyEntryVerbatim env st d dd k deps"
  shows "\<exists>info. py_getRequireInfoFromClassDescriptor env st d dd (Some k) = Inr info \<and>
           map_of deps k = Some info"
proof (cases "py_getRequireInfoFromClassDescriptor env st d dd (Some k)")
  case (Inl e)
  with assms show ?thesis by (simp add: pyEntryVerbatim_def)
next
  case (Inr info)
  with assms have "map_of deps k = Some info"
    by (simp add: pyEntryVerbatim_def)
  with Inr show ?thesis by (intro exI [of _ info] conjI)
qed

lemma py_processSuperClass_Inr:
  assumes "py_processSuperClass env st d dd config = Inr s"
  shows "\<exists>info. py_getRequireInfoFromClassDescriptor env st d dd (superClass config) = Inr info \<and>
           s = (if className info = ''Three'' then info\<lparr> className := ''ThreeWidget'' \<rparr> else info)"
proof (cases "py_getRequireInfoFromClassDescriptor env st d dd (superClass config)")
  case (Inl e)
  with assms show ?thesis by (simp add: py_processSuperClass_def)
next
  case (Inr info)
  with assms have "s = renameThree info"
    by (simp add: py_processSuperClass_def)
  then have "s = (if className info = ''Three'' then info\<lparr> className := ''ThreeWidget'' \<rparr> else info)"
    by (simp only: renameThree_def)
  with Inr show ?thesis by (intro exI [of _ info] conjI)
qed

text \<open>
  Claim C10. Whenever the Python wrapper of a class is built: the superclass reference of
  its context is the resolved reference with the class name \<open>Three\<close> replaced by
  \<open>ThreeWidget\<close>; the entry of a key that properties write only as a single type name is the
  resolved reference with the same replacement; and the entry of a key that is listed
  explicitly or written from an array of type names, and by no single type name, is the
  resolved reference as it is, a class name \<open>Three\<close> included.
\<close>

theorem python_renames_Three_to_ThreeWidget:
  "py_construct tpl env st d m X = Inr pw \<longrightarrow>
     (\<exists>info. py_getRequireInfoFromClassDescriptor env st d (pyDestDir env m) (superClass (py_config pw))
               = Inr info \<and>
             py_superClass (py_context pw) =
               (if className info = ''Three'' then info\<lparr> className := ''ThreeWidget'' \<rparr> else info)) \<and>
     (\<forall>k. (\<exists>p \<in> snd ` set (orEmpty (properties (py_config pw))). singleTarget p = Some k) \<and>
          (\<forall>p \<in> snd ` set (orEmpty (properties (py_config pw))). k \<notin> set (arrayTargets p)) \<longrightarrow>
          (\<exists>info. py_getRequireInfoFromClassDescriptor env st d (pyDestDir env m) (Some k) = Inr info \<and>
                  map_of (py_dependencies (py_context pw)) k =
                    Some (if className info = ''Three'' then info\<lparr> className := ''ThreeWidget'' \<rparr>
                          else info))) \<and>
     (\<forall>k. (k \<in> set (orEmpty (dependencies (py_config pw))) \<or>
           (\<exists>p \<in> snd ` set (orEmpty (properties (py_config pw))). k \<in> set (arrayTargets p))) \<and>
          (\<forall>p \<in> snd ` set (orEmpty (properties (py_config pw))). singleTarget p \<noteq> Some k) \<longrightarrow>
          (\<exists>info. py_getRequireInfoFromClassDescriptor env st d (pyDestDir env m) (Some k) = Inr info \<and>
                  map_of (py_dependencies (py_context pw)) k = Some info))"
proof (intro impI conjI allI)
  assume pw: "py_construct tpl env st d m X = Inr pw"
  show "\<exists>info. py_getRequireInfoFromClassDescriptor env st d (pyDestDir env m) (superClass (py_config pw))
               = Inr info \<and>
             py_superClass (py_context pw) =
               (if className info = ''Three'' then info\<lparr> className := ''ThreeWidget'' \<rparr> else info)"
    by (rule py_processSuperClass_Inr [OF py_construct_Inr(2) [OF pw]])
next
  fix k
  assume pw: "py_construct tpl env st d m X = Inr pw"
    and k: "(\<exists>p \<in> snd ` set (orEmpty (properties (py_config pw))). singleTarget p = Some k) \<and>
          (\<forall>p \<in> snd ` set (orEmpty (properties (py_config pw))). k \<notin> set (arrayTargets p))"
  show "\<exists>info. py_getRequireInfoFromClassDescriptor env st d (pyDestDir env m) (Some k) = Inr info \<and>
                  map_of (py_dependencies (py_context pw)) k =
                    Some (if className info = ''Three'' then info\<lparr> className := ''ThreeWidget'' \<rparr>
                          else info)"
    by (rule pyEntryRenamed_D)
       (rule py_processDependencies_renamed [OF py_construct_Inr(3) [OF pw] conjunct1 [OF k] conjunct2 [OF k]])
next
  fix k
  assume pw: "py_construct tpl env st d m X = Inr pw"
    and k: "(k \<in> set (orEmpty (dependencies (py_config pw))) \<or>
           (\<exists>p \<in> snd ` set (orEmpty (properties (py_config pw))). k \<in> set (arrayTargets p))) \<and>
          (\<forall>p \<in> snd ` set (orEmpty (properties (py_config pw))). singleTarget p \<noteq> Some k)"
  show "\<exists>info. py_getRequireInfoFromClassDescriptor env st d (pyDestDir env m) (Some k) = Inr info \<and>
                  map_of (py_dependencies (py_context pw)) k = Some info"
    by (rule pyEntryVerbatim_D)
       (rule py_processDependencies_verbatim [OF py_construct_Inr(3) [OF pw] conjunct1 [OF k] conjunct2 [OF k]])
qed

theorem python_renames_Three_to_ThreeWidget_witness:
  "(\<exists>pw. py_construct plainTemplates exampleEnv meshConfigs 3 ''core/Base.js'' ''Base'' = Inr pw \<and>
         className (py_superClass (py_context pw)) = ''ThreeWidget'') \<and>
   (\<exists>pw a b c. py_construct plainTemplates exampleEnv meshConfigs 3 ''objects/Mesh.js'' ''Mesh'' = Inr pw \<and>
         map_of (py_dependencies (py_context pw)) ''./_base/Three'' = Some a \<and>
         className a = ''ThreeWidget'' \<and>
         map_of (py_dependencies (py_context pw)) ''./lib/Three'' = Some b \<and>
         className b = ''Three'' \<and>
         map_of (py_dependencies (py_context pw)) ''./extras/Three.js'' = Some c \<and>
         className c = ''Three'')"
proof -
  let ?ps = "[(''geometry'', threeProp ThreeType (TNString ''Shape'')),
              (''parts'', threeProp ThreeTypeArray (TNArray [''Base'', ''./extras/Three.js''])),
              (''target'', threeProp ThreeType (TNString [])),
              (''owner'', threeProp ThreeType (TNString ''this''))]"
  let ?cur = "noConfig\<lparr> relativePath := Some ''./objects/Mesh'', superClass := Some ''Base'',
                dependencies := Some [''./lib/Three''], properties := Some ?ps \<rparr>"
  let ?dd = "pyDestDir exampleEnv ''objects/Mesh.js''"
  have X: "map_of meshConfigs (replaceDots ''Mesh'') = Some ?cur" "properties ?cur = Some ?ps"
    "dependencies ?cur = Some [''./lib/Three'']"
    by (simp_all add: meshConfigs_def replaceDots_def)
  have absent: "lookupClass meshConfigs ''./_base/Three'' = None"
    "lookupClass meshConfigs ''./lib/Three'' = None"
    "lookupClass meshConfigs ''./extras/Three.js'' = None"
    by (simp_all add: meshConfigs_def lookupClass_def objectPrototypeNames_def)
  have base: "path_basename ''./_base/Three'' ''.js'' = ''Three''"
    "path_basename ''./lib/Three'' ''.js'' = ''Three''"
    "path_basename ''./extras/Three.js'' ''.js'' = ''Three''"
    by code_simp+
  text \<open>The superclass of \<open>Base\<close> is the default one.\<close>
  have "\<not> isl (py_construct plainTemplates exampleEnv meshConfigs 3 ''core/Base.js'' ''Base'')"
    by code_simp
  then obtain bw where bw: "py_construct plainTemplates exampleEnv meshConfigs 3 ''core/Base.js'' ''Base'' = Inr bw"
    by (metis sum.collapse(2))
  have "map_sum id (\<lambda>w. superClass (py_config w))
          (py_construct plainTemplates exampleEnv meshConfigs 3 ''core/Base.js'' ''Base'')
        = Inr (Some ''./_base/Three'')"
    by code_simp
  with bw have sc: "superClass (py_config bw) = Some ''./_base/Three''" by simp
  from python_renames_Three_to_ThreeWidget [THEN mp, OF bw, THEN conjunct1]
  obtain si where si: "py_getRequireInfoFromClassDescriptor exampleEnv meshConfigs 3
        (pyDestDir exampleEnv ''core/Base.js'') (Some ''./_base/Three'') = Inr si"
      "py_superClass (py_context bw) =
         (if className si = ''Three'' then si\<lparr> className := ''ThreeWidget'' \<rparr> else si)"
    unfolding sc by (elim exE conjE) (rule that, assumption+)
  from py_getRequireInfo_path(1) [OF si(1) absent(1)] have "className si = ''Three''"
    by (simp only: base)
  with si(2) have "className (py_superClass (py_context bw)) = ''ThreeWidget''" by simp
  with bw have part1: "\<exists>pw. py_construct plainTemplates exampleEnv meshConfigs 3 ''core/Base.js'' ''Base'' = Inr pw \<and>
         className (py_superClass (py_context pw)) = ''ThreeWidget''"
    by (intro exI [of _ bw] conjI)
  text \<open>The dependencies of \<open>Mesh\<close>.\<close>
  have "\<not> isl (py_construct plainTemplates exampleEnv meshConfigs 3 ''objects/Mesh.js'' ''Mesh'')"
    by code_simp
  then obtain pw where pw: "py_construct plainTemplates exampleEnv meshConfigs 3 ''objects/Mesh.js'' ''Mesh'' = Inr pw"
    by (metis sum.collapse(2))
  have own: "properties (py_config pw) = Some ?ps" "dependencies (py_config pw) = Some [''./lib/Three'']"
    by (rule getClassConfig_own(1) [OF py_construct_Inr(1) [OF pw] X(1) X(2)],
        rule getClassConfig_own(2) [OF py_construct_Inr(1) [OF pw] X(1) X(3)])
  note T = python_renames_Three_to_ThreeWidget [THEN mp, OF pw, THEN conjunct2]
  have single: "(\<exists>p \<in> snd ` set (orEmpty (properties (py_config pw))). singleTarget p = Some ''./_base/Three'') \<and>
          (\<forall>p \<in> snd ` set (orEmpty (properties (py_config pw))). ''./_base/Three'' \<notin> set (arrayTargets p))"
    unfolding own by code_simp
  from T [THEN conjunct1, THEN spec, THEN mp, OF single]
  obtain i1 where i1: "py_getRequireInfoFromClassDescriptor exampleEnv meshConfigs 3 ?dd (Some ''./_base/Three'') = Inr i1"
      "map_of (py_dependencies (py_context pw)) ''./_base/Three'' =
         Some (if className i1 = ''Three'' then i1\<lparr> className := ''ThreeWidget'' \<rparr> else i1)"
    by (elim exE conjE) (rule that, assumption+)
  from py_getRequireInfo_path(1) [OF i1(1) absent(1)] have "className i1 = ''Three''"
    by (simp only: base)
  with i1(2) have a: "map_of (py_dependencies (py_context pw)) ''./_base/Three'' = Some (i1\<lparr> className := ''ThreeWidget'' \<rparr>)"
    "className (i1\<lparr> className := ''ThreeWidget'' \<rparr>) = ''ThreeWidget''"
    by simp_all
  have explicit: "(''./lib/Three'' \<in> set (orEmpty (dependencies (py_config pw))) \<or>
           (\<exists>p \<in> snd ` set (orEmpty (properties (py_config pw))). ''./lib/Three'' \<in> set (arrayTargets p))) \<and>
          (\<forall>p \<in> snd ` set (orEmpty (properties (py_config pw))). singleTarget p \<noteq> Some ''./lib/Three'')"
    unfolding own by code_simp
  from T [THEN conjunct2, THEN spec, THEN mp, OF explicit]
  obtain i2 where i2: "py_getRequireInfoFromClassDescriptor exampleEnv meshConfigs 3 ?dd (Some ''./lib/Three'') = Inr i2"
      "map_of (py_dependencies (py_context pw)) ''./lib/Three'' = Some i2"
    by (elim exE conjE) (rule that, assumption+)
  from py_getRequireInfo_path(1) [OF i2(1) absent(2)] have b: "className i2 = ''Three''"
    by (simp only: base)
  have array: "(''./extras/Three.js'' \<in> set (orEmpty (dependencies (py_config pw))) \<or>
           (\<exists>p \<in> snd ` set (orEmpty (properties (py_config pw))). ''./extras/Three.js'' \<in> set (arrayTargets p))) \<and>
          (\<forall>p \<in> snd ` set (orEmpty (properties (py_config pw))). singleTarget p \<noteq> Some ''./extras/Three.js'')"
    unfolding own by code_simp
  from T [THEN conjunct2, THEN spec, THEN mp, OF array]
  obtain i3 where i3: "py_getRequireInfoFromClassDescriptor exampleEnv meshConfigs 3 ?dd (Some ''./extras/Three.js'') = Inr i3"
      "map_of (py_dependencies (py_context pw)) ''./extras/Three.js'' = Some i3"
    by (elim exE conjE) (rule that, assumption+)
  from py_getRequireInfo_path(1) [OF i3(1) absent(3)] have c: "className i3 = ''Three''"
    by (simp only: base)
  from pw a i2(2) b i3(2) c
  have part2: "\<exists>pw a b c. py_construct plainTemplates exampleEnv meshConfigs 3 ''objects/Mesh.js'' ''Mesh'' = Inr pw \<and>
         map_of (py_dependencies (py_context pw)) ''./_base/Three'' = Some a \<and>
         className a = ''ThreeWidget'' \<and>
         map_of (py_dependencies (py_context pw)) ''./lib/Three'' = Some b \<and>
         className b = ''Three'' \<and>
         map_of (py_dependencies (py_context pw)) ''./extras/Three.js'' = Some c \<and>
         className c = ''Three''"
    by (intro exI [of _ pw] exI [of _ "i1\<lparr> className := ''ThreeWidget'' \<rparr>"] exI [of _ i2] exI [of _ i3] conjI)
  from part1 part2 show ?thesis by (rule conjI)
qed

subsection \<open>Which properties the dependencies are inferred from\<close>












subsection \<open>A class that cannot be generated\<close>

lemma JavascriptWrapper_explicit_effects:
  "truthy c \<Longrightarrow> snd (JavascriptWrapper tpl env st d m c) = Inl e \<Longrightarrow>
   fst (JavascriptWrapper tpl env st d m c) = []"
  by (cases d) (auto simp: Let_def)

lemma PythonWrapper_explicit_effects:
  "truthy c \<Longrightarrow> fst (PythonWrapper tpl env st d m c) = []"
  by (cases d) (auto simp: Let_def)

lemma JavascriptWrapper_primary_effects:
  "\<not> truthy c \<Longrightarrow> snd (JavascriptWrapper tpl env st (Suc d) m c) = Inl e \<Longrightarrow>
   fst (JavascriptWrapper tpl env st (Suc d) m c) =
     (case getExtraDefines st (replaceDots (path_basename m ''.js'')) of
        Inl x \<Rightarrow> []
      | Inr extraDefines \<Rightarrow>
          (if extraDefines \<noteq> []
           then [ConsoleLog (''extra defines found: '' @ joinWith '','' extraDefines)] else [])
          @ concat (map (\<lambda>extraClassName.
              fst (createJavascriptWrapper tpl env st d m (Some extraClassName))) extraDefines))"
  by (auto simp: Let_def split: sum.splits)

lemma PythonWrapper_primary_effects:
  "\<not> truthy c \<Longrightarrow>
   fst (PythonWrapper tpl env st (Suc d) m c) =
     (case getExtraDefines st (replaceDots (path_basename m ''.js'')) of
        Inl x \<Rightarrow> []
      | Inr extraDefines \<Rightarrow>
          (if extraDefines \<noteq> []
           then [ConsoleLog (''extra defines found: '' @ joinWith '','' extraDefines)] else [])
          @ concat (map (\<lambda>extraClassName.
              fst (createPythonWrapper tpl env st d m (Some extraClassName))) extraDefines))"
  by (auto simp: Let_def split: sum.splits)

text \<open>Where the constructor throws: when the configuration of the class does not resolve,
  when the reference to its superclass does not, or when a dependency does not.\<close>

lemma js_construct_throws:
  "getClassConfig d st n = Inl e \<Longrightarrow> js_construct tpl env st d m n a = Inl e"
  "getClassConfig d st n = Inr config \<Longrightarrow>
   js_getRequireInfoFromClassDescriptor env st d (jsDestDir env m) (superClass config) = Inl e \<Longrightarrow>
   js_construct tpl env st d m n a = Inl e"
  "getClassConfig d st n = Inr config \<Longrightarrow>
   js_getRequireInfoFromClassDescriptor env st d (jsDestDir env m) (superClass config) = Inr si \<Longrightarrow>
   js_processDependencies env st d (jsDestDir env m) config = Inl e \<Longrightarrow>
   js_construct tpl env st d m n a = Inl e"
  by (simp_all add: js_construct_def Let_def jsDestDir_def)

lemma py_construct_throws:
  "getClassConfig d st n = Inl e \<Longrightarrow> py_construct tpl env st d m n = Inl e"
  "getClassConfig d st n = Inr config \<Longrightarrow>
   py_processSuperClass env st d (pyDestDir env m) config = Inl e \<Longrightarrow>
   py_construct tpl env st d m n = Inl e"
  "getClassConfig d st n = Inr config \<Longrightarrow>
   py_processSuperClass env st d (pyDestDir env m) config = Inr si \<Longrightarrow>
   py_processDependencies env st d (pyDestDir env m) config = Inl e \<Longrightarrow>
   py_construct tpl env st d m n = Inl e"
  by (simp_all add: py_construct_def Let_def pyDestDir_def)

text \<open>
  Claim C8. Whenever the constructor of a wrapper throws, for whatever reason (the
  configuration of the class or of a class it refers to does not resolve, a constructor
  argument is unknown, the stack is used up), the per-class generator of either language
  returns the skipped result, and what it did is what the constructor had done before the
  throw followed by the log lines: the error and the \<^verbatim>\<open>skipping:\<close> line with the source
  file and the class name. The constructor itself writes no file: for a class passed by name
  it has done nothing before the throw, and for the class named after the source file it
  has only run the generator for the other classes of that file. The failure is not passed
  on: the generator called for a list of files returns, for every file of the list, what
  the call for that file does and returns, whether or not another file of the list failed.
\<close>

theorem failing_class_is_logged_and_skipped:
  "(snd (JavascriptWrapper tpl env st d m c) = Inl e \<longrightarrow>
      createJavascriptWrapper tpl env st d m c =
        (fst (JavascriptWrapper tpl env st d m c) @
           [ConsoleLog ''error creating wrapper: '', ConsoleLogError e,
            ConsoleLog (skippingLine m c)], Skipped)) \<and>
   (snd (PythonWrapper tpl env st d m c) = Inl e \<longrightarrow>
      createPythonWrapper tpl env st d m c =
        (fst (PythonWrapper tpl env st d m c) @
           [ConsoleLogError e, ConsoleLog (skippingLine m c)], Skipped)) \<and>
   (truthy c \<and> snd (JavascriptWrapper tpl env st d m c) = Inl e \<longrightarrow>
      fst (JavascriptWrapper tpl env st d m c) = []) \<and>
   (truthy c \<and> snd (PythonWrapper tpl env st d m c) = Inl e \<longrightarrow>
      fst (PythonWrapper tpl env st d m c) = []) \<and>
   (\<not> truthy c \<and> snd (JavascriptWrapper tpl env st (Suc d) m c) = Inl e \<longrightarrow>
      fst (JavascriptWrapper tpl env st (Suc d) m c) =
        (case getExtraDefines st (replaceDots (path_basename m ''.js'')) of
           Inl x \<Rightarrow> []
         | Inr extraDefines \<Rightarrow>
             (if extraDefines \<noteq> []
              then [ConsoleLog (''extra defines found: '' @ joinWith '','' extraDefines)] else [])
             @ concat (map (\<lambda>extraClassName.
                 fst (createJavascriptWrapper tpl env st d m (Some extraClassName))) extraDefines))) \<and>
   (\<not> truthy c \<and> snd (PythonWrapper tpl env st (Suc d) m c) = Inl e \<longrightarrow>
      fst (PythonWrapper tpl env st (Suc d) m c) =
        (case getExtraDefines st (replaceDots (path_basename m ''.js'')) of
           Inl x \<Rightarrow> []
         | Inr extraDefines \<Rightarrow>
             (if extraDefines \<noteq> []
              then [ConsoleLog (''extra defines found: '' @ joinWith '','' extraDefines)] else [])
             @ concat (map (\<lambda>extraClassName.
                 fst (createPythonWrapper tpl env st d m (Some extraClassName))) extraDefines))) \<and>
   mapPromiseFnOverFileList (xs @ m # ys) f =
     (fst (mapPromiseFnOverFileList xs f) @ fst (f m) @ fst (mapPromiseFnOverFileList ys f),
      snd (mapPromiseFnOverFileList xs f) @ snd (f m) # snd (mapPromiseFnOverFileList ys f))"
proof (intro conjI impI)
  assume "snd (JavascriptWrapper tpl env st d m c) = Inl e"
  then show "createJavascriptWrapper tpl env st d m c =
        (fst (JavascriptWrapper tpl env st d m c) @
           [ConsoleLog ''error creating wrapper: '', ConsoleLogError e,
            ConsoleLog (skippingLine m c)], Skipped)"
    by (cases "JavascriptWrapper tpl env st d m c") simp
next
  assume "snd (PythonWrapper tpl env st d m c) = Inl e"
  then show "createPythonWrapper tpl env st d m c =
        (fst (PythonWrapper tpl env st d m c) @
           [ConsoleLogError e, ConsoleLog (skippingLine m c)], Skipped)"
    by (cases "PythonWrapper tpl env st d m c") simp
next
  assume h: "truthy c \<and> snd (JavascriptWrapper tpl env st d m c) = Inl e"
  show "fst (JavascriptWrapper tpl env st d m c) = []"
    by (rule JavascriptWrapper_explicit_effects [OF conjunct1 [OF h] conjunct2 [OF h]])
next
  assume h: "truthy c \<and> snd (PythonWrapper tpl env st d m c) = Inl e"
  show "fst (PythonWrapper tpl env st d m c) = []"
    by (rule PythonWrapper_explicit_effects [OF conjunct1 [OF h]])
next
  assume h: "\<not> truthy c \<and> snd (JavascriptWrapper tpl env st (Suc d) m c) = Inl e"
  show "fst (JavascriptWrapper tpl env st (Suc d) m c) =
        (case getExtraDefines st (replaceDots (path_basename m ''.js'')) of
           Inl x \<Rightarrow> []
         | Inr extraDefines \<Rightarrow>
             (if extraDefines \<noteq> []
              then [ConsoleLog (''extra defines found: '' @ joinWith '','' extraDefines)] else [])
             @ concat (map (\<lambda>extraClassName.
                 fst (createJavascriptWrapper tpl env st d m (Some extraClassName))) extraDefines))"
    by (rule JavascriptWrapper_primary_effects [OF conjunct1 [OF h] conjunct2 [OF h]])
next
  assume h: "\<not> truthy c \<and> snd (PythonWrapper tpl env st (Suc d) m c) = Inl e"
  show "fst (PythonWrapper tpl env st (Suc d) m c) =
        (case getExtraDefines st (replaceDots (path_basename m ''.js'')) of
           Inl x \<Rightarrow> []
         | Inr extraDefines \<Rightarrow>
             (if extraDefines \<noteq> []
              then [ConsoleLog (''extra defines found: '' @ joinWith '','' extraDefines)] else [])
             @ concat (map (\<lambda>extraClassName.
                 fst (createPythonWrapper tpl env st d m (Some extraClassName))) extraDefines))"
    by (rule PythonWrapper_primary_effects [OF conjunct1 [OF h]])
next
  show "mapPromiseFnOverFileList (xs @ m # ys) f =
     (fst (mapPromiseFnOverFileList xs f) @ fst (f m) @ fst (mapPromiseFnOverFileList ys f),
      snd (mapPromiseFnOverFileList xs f) @ snd (f m) # snd (mapPromiseFnOverFileList ys f))"
    by (simp add: mapPromiseFnOverFileList_def)
qed


theorem failing_class_is_logged_and_skipped_witness:
  "createJavascriptWrapper plainTemplates exampleEnv orphanConfigs 4 ''core/A.js'' None =
     ([ConsoleLog ''error creating wrapper: '', ConsoleLogError (InvalidClassName ''B''),
       ConsoleLog ''skipping: core/A.js''], Skipped) \<and>
   createPythonWrapper plainTemplates exampleEnv orphanConfigs 4 ''core/User.js'' (Some ''User'') =
     ([ConsoleLogError (InvalidClassName ''B''), ConsoleLog ''skipping: core/User.js:User''],
      Skipped) \<and>
   mapPromiseFnOverFileList [''core/A.js'', ''core/User.js'', ''core/Base.js'']
       (\<lambda>m. createJavascriptWrapper plainTemplates exampleEnv orphanConfigs 4 m None) =
     ([ConsoleLog ''error creating wrapper: '', ConsoleLogError (InvalidClassName ''B''),
       ConsoleLog ''skipping: core/A.js'',
       ConsoleLog ''error creating wrapper: '', ConsoleLogError (InvalidClassName ''B''),
       ConsoleLog ''skipping: core/User.js'',
       OutputFile ''/repo/js/src/core/Base.autogen.js'' ''// Base''],
      [Skipped, Skipped, Written])"
proof -
  let ?f = "\<lambda>m. createJavascriptWrapper plainTemplates exampleEnv orphanConfigs (Suc 3) m None"
  have four: "(4::nat) = Suc 3" by simp
  have a: "snd (JavascriptWrapper plainTemplates exampleEnv orphanConfigs (Suc 3) ''core/A.js'' None) =
             Inl (InvalidClassName ''B'')"
    by code_simp
  have a': "\<not> truthy None \<and>
            snd (JavascriptWrapper plainTemplates exampleEnv orphanConfigs (Suc 3) ''core/A.js'' None) =
             Inl (InvalidClassName ''B'')"
    using a by (intro conjI) simp
  have extras: "getExtraDefines orphanConfigs (replaceDots (path_basename ''core/A.js'' ''.js'')) = Inr []"
    by code_simp
  have ea: "fst (JavascriptWrapper plainTemplates exampleEnv orphanConfigs (Suc 3) ''core/A.js'' None) = []"
    using failing_class_is_logged_and_skipped
      [of plainTemplates exampleEnv orphanConfigs 3 "''core/A.js''" None "InvalidClassName ''B''",
       THEN conjunct2, THEN conjunct2, THEN conjunct2, THEN conjunct2, THEN conjunct1, THEN mp, OF a']
    unfolding extras by simp
  have sa: "skippingLine ''core/A.js'' None = ''skipping: core/A.js''"
    by (simp add: skippingLine_def)
  have 1: "createJavascriptWrapper plainTemplates exampleEnv orphanConfigs (Suc 3) ''core/A.js'' None =
     ([ConsoleLog ''error creating wrapper: '', ConsoleLogError (InvalidClassName ''B''),
       ConsoleLog ''skipping: core/A.js''], Skipped)"
    using failing_class_is_logged_and_skipped
      [of plainTemplates exampleEnv orphanConfigs "Suc 3" "''core/A.js''" None "InvalidClassName ''B''",
       THEN conjunct1, THEN mp, OF a]
    unfolding ea sa by simp
  have u: "snd (PythonWrapper plainTemplates exampleEnv orphanConfigs (Suc 3) ''core/User.js'' (Some ''User'')) =
             Inl (InvalidClassName ''B'')"
    by code_simp
  have u': "truthy (Some ''User'') \<and>
       snd (PythonWrapper plainTemplates exampleEnv orphanConfigs (Suc 3) ''core/User.js'' (Some ''User'')) =
             Inl (InvalidClassName ''B'')"
    using u by (intro conjI) simp
  have eu: "fst (PythonWrapper plainTemplates exampleEnv orphanConfigs (Suc 3) ''core/User.js'' (Some ''User'')) = []"
    using failing_class_is_logged_and_skipped
      [of plainTemplates exampleEnv orphanConfigs "Suc 3" "''core/User.js''" "Some ''User''" "InvalidClassName ''B''",
       THEN conjunct2, THEN conjunct2, THEN conjunct2, THEN conjunct1, THEN mp, OF u'] .
  have su: "skippingLine ''core/User.js'' (Some ''User'') = ''skipping: core/User.js:User''"
    by (simp add: skippingLine_def)
  have 2: "createPythonWrapper plainTemplates exampleEnv orphanConfigs (Suc 3) ''core/User.js'' (Some ''User'') =
     ([ConsoleLogError (InvalidClassName ''B''), ConsoleLog ''skipping: core/User.js:User''],
      Skipped)"
    using failing_class_is_logged_and_skipped
      [of plainTemplates exampleEnv orphanConfigs "Suc 3" "''core/User.js''" "Some ''User''" "InvalidClassName ''B''",
       THEN conjunct2, THEN conjunct1, THEN mp, OF u]
    unfolding eu su by simp
  have user: "?f ''core/User.js'' =
     ([ConsoleLog ''error creating wrapper: '', ConsoleLogError (InvalidClassName ''B''),
       ConsoleLog ''skipping: core/User.js''], Skipped)"
    by code_simp
  have base: "?f ''core/Base.js'' =
     ([OutputFile ''/repo/js/src/core/Base.autogen.js'' ''// Base''], Written)"
    by code_simp
  have one: "mapPromiseFnOverFileList [''core/A.js''] ?f =
     ([ConsoleLog ''error creating wrapper: '', ConsoleLogError (InvalidClassName ''B''),
       ConsoleLog ''skipping: core/A.js''], [Skipped])"
    unfolding mapPromiseFnOverFileList_def by (simp only: 1 list.map concat.simps fst_conv snd_conv append_Nil2)
  have three: "mapPromiseFnOverFileList [''core/Base.js''] ?f =
     ([OutputFile ''/repo/js/src/core/Base.autogen.js'' ''// Base''], [Written])"
    unfolding mapPromiseFnOverFileList_def by (simp only: base list.map concat.simps fst_conv snd_conv append_Nil2)
  have 3: "mapPromiseFnOverFileList ([''core/A.js''] @ ''core/User.js'' # [''core/Base.js'']) ?f =
     ([ConsoleLog ''error creating wrapper: '', ConsoleLogError (InvalidClassName ''B''),
       ConsoleLog ''skipping: core/A.js'',
       ConsoleLog ''error creating wrapper: '', ConsoleLogError (InvalidClassName ''B''),
       ConsoleLog ''skipping: core/User.js'',
       OutputFile ''/repo/js/src/core/Base.autogen.js'' ''// Base''],
      [Skipped, Skipped, Written])"
    using failing_class_is_logged_and_skipped
      [of plainTemplates exampleEnv orphanConfigs "Suc 3" "''core/User.js''" None "InvalidClassName ''B''"
          "[''core/A.js'']" "[''core/Base.js'']" ?f,
       THEN conjunct2, THEN conjunct2, THEN conjunct2, THEN conjunct2, THEN conjunct2, THEN conjunct2]
    unfolding one three user by (simp only: fst_conv snd_conv append.simps)
  then have 3: "mapPromiseFnOverFileList [''core/A.js'', ''core/User.js'', ''core/Base.js''] ?f =
     ([ConsoleLog ''error creating wrapper: '', ConsoleLogError (InvalidClassName ''B''),
       ConsoleLog ''skipping: core/A.js'',
       ConsoleLog ''error creating wrapper: '', ConsoleLogError (InvalidClassName ''B''),
       ConsoleLog ''skipping: core/User.js'',
       OutputFile ''/repo/js/src/core/Base.autogen.js'' ''// Base''],
      [Skipped, Skipped, Written])"
    by (simp only: append.simps)
  from 1 2 3 show ?thesis unfolding four by (intro conjI)
qed


subsection \<open>Running the generator again\<close>

























end
